theory Spec2Isabelle
  imports Complex_Main "HOL-Library.AList" "HOL-Library.Char_ord" "HOL-Library.List_Lexorder"
begin

section \<open>Numbers of the program\<close>

text \<open>
  The scripts compute on pandas columns of 64-bit floats and on single numpy floats.
  A cell of a column is a number or NaN (pandas' marker of a missing entry): a
  \<open>real option\<close>, \<open>None\<close> being NaN. A single float that the estimator and the
  age-standardisation compute can also be infinite (a division by a zero weight sum), so
  these are values of \<open>fl\<close>. Finite values are real numbers: rounding and the sign of a
  zero are not modelled.
\<close>

type_synonym cell = "real option"

type_synonym series = "cell list"

datatype fl = Fin real | PInf | NInf | NaN

fun fneg :: "fl \<Rightarrow> fl" where
  "fneg (Fin a) = Fin (- a)"
| "fneg PInf = NInf"
| "fneg NInf = PInf"
| "fneg NaN = NaN"

fun fadd :: "fl \<Rightarrow> fl \<Rightarrow> fl" where
  "fadd (Fin a) (Fin b) = Fin (a + b)"
| "fadd NaN _ = NaN"
| "fadd _ NaN = NaN"
| "fadd PInf NInf = NaN"
| "fadd NInf PInf = NaN"
| "fadd PInf _ = PInf"
| "fadd _ PInf = PInf"
| "fadd NInf _ = NInf"
| "fadd _ NInf = NInf"

definition fsub :: "fl \<Rightarrow> fl \<Rightarrow> fl" where
  "fsub a b = fadd a (fneg b)"

fun fmul :: "fl \<Rightarrow> fl \<Rightarrow> fl" where
  "fmul (Fin a) (Fin b) = Fin (a * b)"
| "fmul NaN _ = NaN"
| "fmul _ NaN = NaN"
| "fmul PInf (Fin b) = (if b = 0 then NaN else if 0 < b then PInf else NInf)"
| "fmul NInf (Fin b) = (if b = 0 then NaN else if 0 < b then NInf else PInf)"
| "fmul (Fin a) PInf = (if a = 0 then NaN else if 0 < a then PInf else NInf)"
| "fmul (Fin a) NInf = (if a = 0 then NaN else if 0 < a then NInf else PInf)"
| "fmul PInf PInf = PInf"
| "fmul NInf NInf = PInf"
| "fmul PInf NInf = NInf"
| "fmul NInf PInf = NInf"

text \<open>numpy's float division: a zero divisor gives NaN or an infinity, never an exception.\<close>

fun fdiv :: "fl \<Rightarrow> fl \<Rightarrow> fl" where
  "fdiv (Fin a) (Fin b) =
     (if b = 0 then (if a = 0 then NaN else if 0 < a then PInf else NInf) else Fin (a / b))"
| "fdiv NaN _ = NaN"
| "fdiv _ NaN = NaN"
| "fdiv (Fin a) PInf = Fin 0"
| "fdiv (Fin a) NInf = Fin 0"
| "fdiv PInf (Fin b) = (if 0 \<le> b then PInf else NInf)"
| "fdiv NInf (Fin b) = (if 0 \<le> b then NInf else PInf)"
| "fdiv PInf PInf = NaN"
| "fdiv PInf NInf = NaN"
| "fdiv NInf PInf = NaN"
| "fdiv NInf NInf = NaN"

text \<open>\<^verbatim>\<open>np.sqrt\<close>: NaN on a negative number.\<close>

fun fsqrt :: "fl \<Rightarrow> fl" where
  "fsqrt (Fin a) = (if a < 0 then NaN else Fin (sqrt a))"
| "fsqrt PInf = PInf"
| "fsqrt NInf = NaN"
| "fsqrt NaN = NaN"

text \<open>The comparison \<^verbatim>\<open>a < b\<close> of two floats: false as soon as one is NaN.\<close>

fun flt :: "fl \<Rightarrow> fl \<Rightarrow> bool" where
  "flt (Fin a) (Fin b) = (a < b)"
| "flt NaN _ = False"
| "flt _ NaN = False"
| "flt PInf _ = False"
| "flt _ NInf = False"
| "flt NInf _ = True"
| "flt _ PInf = True"

text \<open>
  Python's builtin \<^verbatim>\<open>max(a, b)\<close> keeps \<open>a\<close> unless \<^verbatim>\<open>b > a\<close>, and
  \<^verbatim>\<open>min(a, b)\<close> keeps \<open>a\<close> unless \<^verbatim>\<open>b < a\<close>: with \<open>b\<close> NaN both return \<open>a\<close>.
\<close>

definition py_max :: "fl \<Rightarrow> fl \<Rightarrow> fl" where
  "py_max a b = (if flt a b then b else a)"

definition py_min :: "fl \<Rightarrow> fl \<Rightarrow> fl" where
  "py_min a b = (if flt b a then b else a)"

datatype py_error = KeyError | TypeError

section \<open>Data frames of \<^verbatim>\<open>02_harmonize_variables.py\<close>\<close>

text \<open>
  A data frame is its number of rows and its named columns, in order. The frames the
  derived-variable functions receive carry the default index \<open>0, 1, ..\<close> (\<^verbatim>\<open>main\<close>
  builds them with \<^verbatim>\<open>pd.concat(.., ignore_index=True)\<close>), so row \<open>i\<close> of a column
  meets row \<open>i\<close> of a fresh \<^verbatim>\<open>pd.Series([np.nan] * len(df))\<close>.
\<close>

record dataframe =
  nrows :: nat
  columns :: "(string \<times> series) list"

definition wf_df :: "dataframe \<Rightarrow> bool" where
  "wf_df df = list_all (\<lambda>cs. length (snd cs) = nrows df) (columns df)"

definition nan_series :: "dataframe \<Rightarrow> series" where
  "nan_series df = replicate (nrows df) None"

text \<open>\<^verbatim>\<open>df.get(name, pd.Series([np.nan] * len(df)))\<close>\<close>

definition df_get :: "dataframe \<Rightarrow> string \<Rightarrow> series" where
  "df_get df name = (case map_of (columns df) name of Some s \<Rightarrow> s | None \<Rightarrow> nan_series df)"

text \<open>Element-wise comparisons of a column with a number; NaN compares false.\<close>

definition series_eq :: "series \<Rightarrow> real \<Rightarrow> bool list" where
  "series_eq s v = map (\<lambda>c. c = Some v) s"

definition series_ge :: "series \<Rightarrow> real \<Rightarrow> bool list" where
  "series_ge s v = map (\<lambda>c. case c of None \<Rightarrow> False | Some x \<Rightarrow> v \<le> x) s"

definition series_isin :: "series \<Rightarrow> real list \<Rightarrow> bool list" where
  "series_isin s vs = map (\<lambda>c. case c of None \<Rightarrow> False | Some x \<Rightarrow> x \<in> set vs) s"

definition mask_or :: "bool list \<Rightarrow> bool list \<Rightarrow> bool list" where
  "mask_or a b = map2 (\<or>) a b"

definition mask_and :: "bool list \<Rightarrow> bool list \<Rightarrow> bool list" where
  "mask_and a b = map2 (\<and>) a b"

text \<open>\<^verbatim>\<open>s[mask] = v\<close>\<close>

definition mask_assign :: "series \<Rightarrow> bool list \<Rightarrow> cell \<Rightarrow> series" where
  "mask_assign s msk v = map2 (\<lambda>c m. if m then v else c) s msk"

text \<open>\<^verbatim>\<open>mask.astype(float)\<close>\<close>

definition astype_float :: "bool list \<Rightarrow> series" where
  "astype_float msk = map (\<lambda>m. if m then Some 1 else Some 0) msk"

text \<open>Arithmetic of cells: NaN in, NaN out.\<close>

definition cell_sub :: "cell \<Rightarrow> cell \<Rightarrow> cell" where
  "cell_sub a b = (case a of None \<Rightarrow> None | Some x \<Rightarrow> (case b of None \<Rightarrow> None | Some y \<Rightarrow> Some (x - y)))"

definition cell_div :: "cell \<Rightarrow> real \<Rightarrow> cell" where
  "cell_div a d = (case a of None \<Rightarrow> None | Some x \<Rightarrow> Some (x / d))"

definition series_sub :: "series \<Rightarrow> series \<Rightarrow> series" where
  "series_sub a b = map2 cell_sub a b"

definition series_div :: "series \<Rightarrow> real \<Rightarrow> series" where
  "series_div a d = map (\<lambda>c. cell_div c d) a"

subsection \<open>The CHD composite\<close>

definition CHD_VARS :: "(string \<times> (string \<times> string \<times> string)) list" where
  "CHD_VARS =
     [(''continuous'', (''MCQ160C'', ''MCQ160D'', ''MCQ160E'')),
      (''nhanes_iii'', (''HAD1'', ''HAD2'', ''HAD3''))]"

text \<open>
  The two masked assignments that both scripts apply to a composite column of NaN:
  \<^verbatim>\<open>any_yes\<close> sets 1, then \<^verbatim>\<open>all_no\<close> sets 0 (1 is Yes and 2 is No in the NHANES
  coding).
\<close>

definition chd_masks :: "series \<Rightarrow> series \<Rightarrow> series \<Rightarrow> series \<Rightarrow> series" where
  "chd_masks composite chd angina mi =
     (let any_yes = mask_or (mask_or (series_eq chd 1) (series_eq angina 1)) (series_eq mi 1);
          composite1 = mask_assign composite any_yes (Some 1);
          all_no = mask_and (mask_and (series_eq chd 2) (series_eq angina 2)) (series_eq mi 2)
      in mask_assign composite1 all_no (Some 0))"

definition create_chd_composite :: "dataframe \<Rightarrow> string \<Rightarrow> py_error + series" where
  "create_chd_composite df var_type =
     (case map_of CHD_VARS var_type of
        None \<Rightarrow> Inl KeyError
      | Some (v_chd, v_angina, v_mi) \<Rightarrow>
          Inr (chd_masks (nan_series df) (df_get df v_chd) (df_get df v_angina) (df_get df v_mi)))"

subsection \<open>\<^verbatim>\<open>harmonize_nhanes_iii\<close> of \<^verbatim>\<open>06_nhanes_iii_harmonize.py\<close>\<close>

text \<open>
  The function receives the frame that \<^verbatim>\<open>read_nhanes_iii_adult\<close> has read: numeric
  columns under distinct names. It renames columns, recodes the race column, computes
  the composite and adds two columns of text, so the frame it returns has columns of
  floats and columns of strings.
\<close>

datatype column = Floats series | Strings "string list"

record harmonized =
  h_nrows :: nat
  h_columns :: "(string \<times> column) list"

definition NHANES_III_RENAME :: "(string \<times> string) list" where
  "NHANES_III_RENAME =
     [(''SEQN'', ''SEQN''), (''HSAGEIR'', ''RIDAGEYR''), (''HSSEX'', ''RIAGENDR''),
      (''DMARETHN'', ''RIDRETH1''), (''DMPPIR'', ''INDFMPIR''), (''WTPFEX6'', ''WTMEC2YR''),
      (''SDPSTRA6'', ''SDMVSTRA''), (''SDPPSU6'', ''SDMVPSU'')]"

text \<open>\<^verbatim>\<open>df.rename(columns=..)\<close>: a column name that is no key of the dictionary stays.\<close>

definition rename_column :: "(string \<times> string) list \<Rightarrow> string \<Rightarrow> string" where
  "rename_column m c = (case map_of m c of None \<Rightarrow> c | Some c' \<Rightarrow> c')"

definition rename_columns ::
    "(string \<times> string) list \<Rightarrow> (string \<times> series) list \<Rightarrow> (string \<times> series) list" where
  "rename_columns m cols = map (\<lambda>cs. (rename_column m (fst cs), snd cs)) cols"

text \<open>The number of columns that carry a name.\<close>

definition label_count :: "string \<Rightarrow> (string \<times> series) list \<Rightarrow> nat" where
  "label_count name cols = length (filter (\<lambda>cs. fst cs = name) cols)"

text \<open>
  \<^verbatim>\<open>.map({1: 3, 2: 4, 3: 1, 4: 5})\<close> on one entry: an entry that is no key of the
  dictionary, NaN included, becomes NaN.
\<close>

definition race_recode :: "cell \<Rightarrow> cell" where
  "race_recode c =
     (if c = Some 1 then Some 3 else if c = Some 2 then Some 4
      else if c = Some 3 then Some 1 else if c = Some 4 then Some 5 else None)"

text \<open>
  \<^verbatim>\<open>df[name] = ..\<close> replaces the column of that name where it stands, or appends a new
  column (\<open>AList.update\<close>). \<^verbatim>\<open>df["RIDRETH1"]\<close> and \<^verbatim>\<open>df["HAD1"]\<close>, .. raise
  \<^verbatim>\<open>KeyError\<close> on an absent column. When the renaming leaves two columns named
  \<^verbatim>\<open>RIDRETH1\<close> (the frame had both \<^verbatim>\<open>DMARETHN\<close> and \<^verbatim>\<open>RIDRETH1\<close>),
  \<^verbatim>\<open>df["RIDRETH1"]\<close> is a frame of two columns, whose \<^verbatim>\<open>map\<close> does not take a
  dictionary: the call raises.
\<close>

definition harmonize_nhanes_iii :: "dataframe \<Rightarrow> py_error + harmonized" where
  "harmonize_nhanes_iii df =
     (let cols0 = rename_columns NHANES_III_RENAME (columns df)
      in if 1 < label_count ''RIDRETH1'' cols0 then Inl TypeError
         else
           (case map_of cols0 ''RIDRETH1'' of
              None \<Rightarrow> Inl KeyError
            | Some race \<Rightarrow>
                (let cols1 = AList.update ''RIDRETH1'' (map race_recode race) cols0;
                     cols2 = AList.update ''chd_composite'' (replicate (nrows df) None) cols1
                 in case map_of cols2 ''HAD1'' of
                      None \<Rightarrow> Inl KeyError
                    | Some had1 \<Rightarrow>
                        (case map_of cols2 ''HAD2'' of
                           None \<Rightarrow> Inl KeyError
                         | Some had2 \<Rightarrow>
                             (case map_of cols2 ''HAD3'' of
                                None \<Rightarrow> Inl KeyError
                              | Some had3 \<Rightarrow>
                                  (let composite =
                                         chd_masks (replicate (nrows df) None) had1 had2 had3;
                                       cols3 = AList.update ''chd_composite'' composite cols2;
                                       cols4 = AList.update ''era''
                                         (Strings (replicate (nrows df) ''Era1_1988-1994''))
                                         (map (\<lambda>cs. (fst cs, Floats (snd cs))) cols3);
                                       cols5 = AList.update ''cycle''
                                         (Strings (replicate (nrows df) ''1988-1994'')) cols4
                                   in Inr \<lparr>h_nrows = nrows df, h_columns = cols5\<rparr>))))))"

subsection \<open>LDL\<close>

definition calculate_ldl :: "dataframe \<Rightarrow> series" where
  "calculate_ldl df =
     (let tc = df_get df ''tchol'';
          hdl = df_get df ''hdl'';
          tg = df_get df ''trigly'';
          ldl = series_sub (series_sub tc hdl) (series_div tg 5)
      in mask_assign ldl (series_ge tg 400) None)"

subsection \<open>The risk factors\<close>

text \<open>\<^verbatim>\<open>df[cols].mean(axis=1)\<close>: the mean of the entries of a row that are not NaN.\<close>

definition row_mean :: "cell list \<Rightarrow> cell" where
  "row_mean cs =
     (let xs = List.map_filter (\<lambda>c. c) cs
      in if xs = [] then None else Some (sum_list xs / real (length xs)))"

definition cols_mean :: "dataframe \<Rightarrow> string list \<Rightarrow> series" where
  "cols_mean df cols = map (\<lambda>i. row_mean (map (\<lambda>c. df_get df c ! i) cols)) [0..<nrows df]"

definition define_hypertension :: "dataframe \<Rightarrow> series" where
  "define_hypertension df =
     (let sbp_cols = filter (\<lambda>c. take 3 c = ''sbp'') (map fst (columns df));
          dbp_cols = filter (\<lambda>c. take 3 c = ''dbp'') (map fst (columns df));
          mean_sbp = (if sbp_cols \<noteq> [] then cols_mean df sbp_cols else nan_series df);
          mean_dbp = (if dbp_cols \<noteq> [] then cols_mean df dbp_cols else nan_series df);
          bp_med = df_get df ''bp_med''
      in astype_float
           (mask_or (mask_or (series_ge mean_sbp 130) (series_ge mean_dbp 80)) (series_eq bp_med 1)))"

definition define_diabetes :: "dataframe \<Rightarrow> series" where
  "define_diabetes df =
     (let hba1c = df_get df ''hba1c'';
          glucose = df_get df ''glucose'';
          insulin = df_get df ''insulin_use'';
          oral_med = df_get df ''oral_dm_med'';
          diabetes_told = df_get df ''diabetes_told''
      in astype_float
           (mask_or (mask_or (mask_or (mask_or (series_ge hba1c 6.5) (series_ge glucose 126))
              (series_eq insulin 1)) (series_eq oral_med 1)) (series_eq diabetes_told 1)))"

definition define_hyperlipidemia :: "dataframe \<Rightarrow> series" where
  "define_hyperlipidemia df =
     (let tchol = df_get df ''tchol'';
          ldl = df_get df ''ldl_calc''
      in astype_float (mask_or (series_ge tchol 200) (series_ge ldl 130)))"

definition define_obesity :: "dataframe \<Rightarrow> series" where
  "define_obesity df = (let bmi = df_get df ''bmi'' in astype_float (series_ge bmi 30))"

subsection \<open>Smoking status\<close>

definition define_smoking_status :: "dataframe \<Rightarrow> series" where
  "define_smoking_status df =
     (let smoke_100 = df_get df ''smoke_100'';
          smoke_now = df_get df ''smoke_now'';
          status0 = nan_series df;
          status1 = mask_assign status0 (series_eq smoke_100 2) (Some 3);
          status2 = mask_assign status1
                      (mask_and (series_eq smoke_100 1) (series_isin smoke_now [1, 2])) (Some 1)
      in mask_assign status2 (mask_and (series_eq smoke_100 1) (series_eq smoke_now 3)) (Some 2))"

section \<open>Survey-weighted estimation of \<^verbatim>\<open>03_statistical_analysis.py\<close>\<close>

definition US_STD_2000 :: "(string \<times> real) list" where
  "US_STD_2000 =
     [(''20-29'', 0.1318), (''30-39'', 0.1342), (''40-49'', 0.1354), (''50-59'', 0.0933),
      (''60-69'', 0.0640), (''70-79'', 0.0463), (''80+'', 0.0229)]"

text \<open>
  \<^verbatim>\<open>pd.cut(age, bins=[20, 30, 40, 50, 60, 70, 80, 120], labels=.., right=False)\<close> on one
  entry: the bins are closed on the left and open on the right, and an age outside of
  them, or a missing age, has no group.
\<close>

definition create_age_groups :: "cell \<Rightarrow> string option" where
  "create_age_groups age =
     (case age of
        None \<Rightarrow> None
      | Some a \<Rightarrow>
          if 20 \<le> a \<and> a < 30 then Some ''20-29''
          else if 30 \<le> a \<and> a < 40 then Some ''30-39''
          else if 40 \<le> a \<and> a < 50 then Some ''40-49''
          else if 50 \<le> a \<and> a < 60 then Some ''50-59''
          else if 60 \<le> a \<and> a < 70 then Some ''60-69''
          else if 70 \<le> a \<and> a < 80 then Some ''70-79''
          else if 80 \<le> a \<and> a < 120 then Some ''80+''
          else None)"

text \<open>
  The dictionary that \<^verbatim>\<open>calculate_survey_weighted_prevalence\<close> returns. Its key
  \<^verbatim>\<open>n_cases\<close> is present on one of the two return paths only: \<open>est_n_cases\<close> is
  \<open>None\<close> when the dictionary has no such key. (The fields carry the prefix \<open>est_\<close>.)
\<close>

record estimate =
  est_prevalence :: fl
  est_se :: fl
  est_ci_low :: fl
  est_ci_high :: fl
  est_n :: nat
  est_n_cases :: "int option"

text \<open>\<^verbatim>\<open>prev['n_cases']\<close>\<close>

definition getitem_n_cases :: "estimate \<Rightarrow> py_error + int" where
  "getitem_n_cases prev = (case est_n_cases prev of None \<Rightarrow> Inl KeyError | Some c \<Rightarrow> Inr c)"

text \<open>
  \<^verbatim>\<open>df[[outcome, weight]].dropna()\<close>: the rows whose outcome and weight are both present,
  as pairs (outcome, weight). The frame is a list of rows and a column is a function on
  rows; both columns exist.
\<close>

definition dropna :: "'r list \<Rightarrow> ('r \<Rightarrow> cell) \<Rightarrow> ('r \<Rightarrow> cell) \<Rightarrow> (real \<times> real) list" where
  "dropna df outcome weight =
     List.map_filter
       (\<lambda>r. case outcome r of None \<Rightarrow> None
             | Some y \<Rightarrow> (case weight r of None \<Rightarrow> None | Some w \<Rightarrow> Some (y, w))) df"

text \<open>Python's \<^verbatim>\<open>int(x)\<close> on a finite float: truncation towards zero.\<close>

definition py_int :: "real \<Rightarrow> int" where
  "py_int x = (if 0 \<le> x then \<lfloor>x\<rfloor> else \<lceil>x\<rceil>)"

definition calculate_survey_weighted_prevalence ::
    "'r list \<Rightarrow> ('r \<Rightarrow> cell) \<Rightarrow> ('r \<Rightarrow> cell) \<Rightarrow> estimate" where
  "calculate_survey_weighted_prevalence df outcome weight =
     (let valid = dropna df outcome weight in
      if length valid = 0 then
        \<lparr>est_prevalence = NaN, est_se = NaN, est_ci_low = NaN, est_ci_high = NaN, est_n = 0,
         est_n_cases = None\<rparr>
      else
        (let weighted_sum = sum_list (map (\<lambda>yw. fst yw * snd yw) valid);
             total_weight = sum_list (map snd valid);
             prevalence = fdiv (Fin weighted_sum) (Fin total_weight);
             n = length valid;
             p = prevalence;
             se_approx = fsqrt (fdiv (fmul p (fsub (Fin 1) p)) (Fin (real n)));
             ci_low = py_max (Fin 0) (fsub prevalence (fmul (Fin 1.96) se_approx));
             ci_high = py_min (Fin 1) (fadd prevalence (fmul (Fin 1.96) se_approx))
         in \<lparr>est_prevalence = prevalence, est_se = se_approx, est_ci_low = ci_low,
              est_ci_high = ci_high, est_n = n,
              est_n_cases = Some (py_int (sum_list (map fst valid)))\<rparr>))"

subsection \<open>Age standardisation\<close>

text \<open>
  The dictionary \<^verbatim>\<open>prevalence_by_age\<close> is an association list in insertion order. The
  loop runs over the items of \<^verbatim>\<open>US_STD_2000\<close> and carries \<^verbatim>\<open>standardized\<close> and
  \<^verbatim>\<open>total_weight\<close>.
\<close>

fun age_standardize_loop ::
    "(string \<times> real) list \<Rightarrow> (string \<times> fl) list \<Rightarrow> fl \<times> real \<Rightarrow> fl \<times> real" where
  "age_standardize_loop [] prevalence_by_age acc = acc"
| "age_standardize_loop ((age_group, weight) # rest) prevalence_by_age (standardized, total_weight) =
     (case map_of prevalence_by_age age_group of
        None \<Rightarrow> age_standardize_loop rest prevalence_by_age (standardized, total_weight)
      | Some p \<Rightarrow>
          age_standardize_loop rest prevalence_by_age
            (fadd standardized (fmul p (Fin weight)), total_weight + weight))"

definition age_standardize :: "(string \<times> fl) list \<Rightarrow> fl" where
  "age_standardize prevalence_by_age =
     (let acc = age_standardize_loop US_STD_2000 prevalence_by_age (Fin 0, 0);
          standardized = fst acc;
          total_weight = snd acc
      in if 0 < total_weight \<and> total_weight < 1 then fdiv standardized (Fin total_weight)
         else standardized)"

subsection \<open>The analyses by era and by subgroup\<close>

text \<open>A row of the harmonised data set, with the columns the two analyses read.\<close>

record participant =
  era :: string
  RIDAGEYR :: cell
  RIAGENDR :: cell
  RIDRETH1 :: cell
  chd_composite :: cell
  WTMEC2YR :: cell

text \<open>
  The exclusions that \<^verbatim>\<open>main\<close> applies before the analyses: age at least 20, a CHD
  status that is not missing, a weight above zero (a comparison with NaN is false).
\<close>

definition apply_exclusions :: "participant list \<Rightarrow> participant list" where
  "apply_exclusions df =
     (let df1 = filter (\<lambda>r. case RIDAGEYR r of None \<Rightarrow> False | Some a \<Rightarrow> 20 \<le> a) df;
          df2 = filter (\<lambda>r. chd_composite r \<noteq> None) df1
      in filter (\<lambda>r. case WTMEC2YR r of None \<Rightarrow> False | Some w \<Rightarrow> 0 < w) df2)"

text \<open>
  The three row selections of the analyses: \<^verbatim>\<open>df[df['era'] == era]\<close>,
  \<^verbatim>\<open>era_df[era_df['age_group'] == ag]\<close> (the age group of a row being
  \<^verbatim>\<open>create_age_groups\<close> of its age) and \<^verbatim>\<open>era_df[era_df[subgroup_var] == value]\<close>.
\<close>

definition era_rows :: "participant list \<Rightarrow> string \<Rightarrow> participant list" where
  "era_rows df e = filter (\<lambda>r. era r = e) df"

definition age_group_rows :: "participant list \<Rightarrow> string \<Rightarrow> participant list" where
  "age_group_rows era_df ag = filter (\<lambda>r. create_age_groups (RIDAGEYR r) = Some ag) era_df"

definition subgroup_rows :: "participant list \<Rightarrow> (participant \<Rightarrow> cell) \<Rightarrow> real \<Rightarrow> participant list" where
  "subgroup_rows era_df subgroup_var v = filter (\<lambda>r. subgroup_var r = Some v) era_df"

text \<open>The loop over the age groups that fills \<^verbatim>\<open>age_prev\<close> for one era.\<close>

fun age_prev_loop ::
    "string list \<Rightarrow> participant list \<Rightarrow> (string \<times> fl) list \<Rightarrow> (string \<times> fl) list" where
  "age_prev_loop [] era_df age_prev = age_prev"
| "age_prev_loop (ag # ags) era_df age_prev =
     (let ag_df = age_group_rows era_df ag
      in if 30 < length ag_df then
           (let ag_prev = calculate_survey_weighted_prevalence ag_df chd_composite WTMEC2YR
            in age_prev_loop ags era_df (AList.update ag (est_prevalence ag_prev) age_prev))
         else age_prev_loop ags era_df age_prev)"

record era_result =
  res_era :: string
  res_n_total :: nat
  res_n_chd :: int
  res_crude_prevalence :: fl
  res_crude_ci_low :: fl
  res_crude_ci_high :: fl
  res_age_std_prevalence :: fl

text \<open>
  The expression \<^verbatim>\<open>age_standardize(age_prev) if age_prev else np.nan\<close> of
  \<^verbatim>\<open>analyze_prevalence_by_era\<close>: an empty dictionary is false.
\<close>

definition age_std_prev_of :: "(string \<times> fl) list \<Rightarrow> fl" where
  "age_std_prev_of age_prev = (if age_prev \<noteq> [] then age_standardize age_prev else NaN)"

text \<open>One pass of the loop over the eras; \<^verbatim>\<open>prev['n_cases']\<close> can raise.\<close>

definition era_step :: "participant list \<Rightarrow> string \<Rightarrow> py_error + era_result" where
  "era_step df e =
     (let era_df = era_rows df e;
          prev = calculate_survey_weighted_prevalence era_df chd_composite WTMEC2YR;
          age_prev = age_prev_loop (map fst US_STD_2000) era_df [];
          age_std_prev = age_std_prev_of age_prev
      in case getitem_n_cases prev of
           Inl err \<Rightarrow> Inl err
         | Inr c \<Rightarrow>
             Inr \<lparr>res_era = e, res_n_total = length era_df, res_n_chd = c,
                  res_crude_prevalence = est_prevalence prev,
                  res_crude_ci_low = est_ci_low prev,
                  res_crude_ci_high = est_ci_high prev,
                  res_age_std_prevalence = age_std_prev\<rparr>)"

fun era_loop ::
    "string list \<Rightarrow> participant list \<Rightarrow> era_result list \<Rightarrow> py_error + era_result list" where
  "era_loop [] df results = Inr results"
| "era_loop (e # es) df results =
     (case era_step df e of
        Inl err \<Rightarrow> Inl err
      | Inr row \<Rightarrow> era_loop es df (results @ [row]))"

text \<open>\<^verbatim>\<open>sorted(df['era'].unique())\<close>\<close>

definition sorted_eras :: "participant list \<Rightarrow> string list" where
  "sorted_eras df = sort (remdups (map era df))"

definition analyze_prevalence_by_era :: "participant list \<Rightarrow> py_error + era_result list" where
  "analyze_prevalence_by_era df = era_loop (sorted_eras df) df []"

record subgroup_result =
  sub_era :: string
  sub_subgroup :: string
  sub_n_total :: nat
  sub_n_chd :: int
  sub_prevalence :: fl
  sub_ci_low :: fl
  sub_ci_high :: fl

text \<open>
  The inner loop of \<^verbatim>\<open>analyze_by_subgroup\<close> over the items of \<^verbatim>\<open>subgroup_labels\<close>;
  \<open>subgroup_var\<close> is the column \<^verbatim>\<open>era_df[subgroup_var]\<close>.
\<close>

fun subgroup_loop ::
    "(real \<times> string) list \<Rightarrow> string \<Rightarrow> participant list \<Rightarrow> (participant \<Rightarrow> cell) \<Rightarrow>
     subgroup_result list \<Rightarrow> py_error + subgroup_result list" where
  "subgroup_loop [] e era_df subgroup_var results = Inr results"
| "subgroup_loop ((v, label) # rest) e era_df subgroup_var results =
     (let sub_df = subgroup_rows era_df subgroup_var v
      in if 50 < length sub_df then
           (let prev = calculate_survey_weighted_prevalence sub_df chd_composite WTMEC2YR
            in case getitem_n_cases prev of
                 Inl err \<Rightarrow> Inl err
               | Inr c \<Rightarrow>
                   subgroup_loop rest e era_df subgroup_var
                     (results @
                      [\<lparr>sub_era = e, sub_subgroup = label, sub_n_total = length sub_df,
                        sub_n_chd = c, sub_prevalence = est_prevalence prev,
                        sub_ci_low = est_ci_low prev, sub_ci_high = est_ci_high prev\<rparr>]))
         else subgroup_loop rest e era_df subgroup_var results)"

fun subgroup_era_loop ::
    "string list \<Rightarrow> participant list \<Rightarrow> (participant \<Rightarrow> cell) \<Rightarrow> (real \<times> string) list \<Rightarrow>
     subgroup_result list \<Rightarrow> py_error + subgroup_result list" where
  "subgroup_era_loop [] df subgroup_var subgroup_labels results = Inr results"
| "subgroup_era_loop (e # es) df subgroup_var subgroup_labels results =
     (let era_df = era_rows df e
      in case subgroup_loop subgroup_labels e era_df subgroup_var results of
           Inl err \<Rightarrow> Inl err
         | Inr results' \<Rightarrow> subgroup_era_loop es df subgroup_var subgroup_labels results')"

definition analyze_by_subgroup ::
    "participant list \<Rightarrow> (participant \<Rightarrow> cell) \<Rightarrow> (real \<times> string) list \<Rightarrow>
     py_error + subgroup_result list" where
  "analyze_by_subgroup df subgroup_var subgroup_labels =
     subgroup_era_loop (sorted_eras df) df subgroup_var subgroup_labels []"

section \<open>The rules as the specification words them\<close>

text \<open>
  The tri-state rule of the specification for the composite outcome, on the three
  indicators of one record (1 is Yes, 2 is No, NaN is missing; the result 1 is Positive,
  0 is Negative, NaN is Unknown).
\<close>

definition spec_chd_rule :: "cell \<Rightarrow> cell \<Rightarrow> cell \<Rightarrow> cell" where
  "spec_chd_rule chd angina mi =
     (if chd = Some 1 \<or> angina = Some 1 \<or> mi = Some 1 then Some 1
      else if chd = Some 2 \<and> angina = Some 2 \<and> mi = Some 2 then Some 0
      else None)"

text \<open>
  The records the specification lets the estimator keep: the outcome is not missing and
  the weight is strictly positive.
\<close>

definition spec_filtered :: "'r list \<Rightarrow> ('r \<Rightarrow> cell) \<Rightarrow> ('r \<Rightarrow> cell) \<Rightarrow> (real \<times> real) list" where
  "spec_filtered df outcome weight =
     List.map_filter
       (\<lambda>r. case outcome r of None \<Rightarrow> None
             | Some y \<Rightarrow> (case weight r of None \<Rightarrow> None
                 | Some w \<Rightarrow> if 0 < w then Some (y, w) else None)) df"

text \<open>
  The two sums of the age standardisation, over the age groups of the reference table
  that are present in a mapping \<open>ps\<close> of finite prevalences: the sum of prevalence times
  reference weight, and the sum of the reference weights used.
\<close>

definition spec_weighted_sum :: "(string \<times> real) list \<Rightarrow> real" where
  "spec_weighted_sum ps =
     sum_list (map (\<lambda>bw. case map_of ps (fst bw) of None \<Rightarrow> 0 | Some x \<Rightarrow> x * snd bw) US_STD_2000)"

definition spec_used_weight :: "(string \<times> real) list \<Rightarrow> real" where
  "spec_used_weight ps =
     sum_list (map (\<lambda>bw. case map_of ps (fst bw) of None \<Rightarrow> 0 | Some x \<Rightarrow> snd bw) US_STD_2000)"

text \<open>A mapping of finite prevalences, as the dictionary of floats that is passed in.\<close>

definition fin_prevalences :: "(string \<times> real) list \<Rightarrow> (string \<times> fl) list" where
  "fin_prevalences ps = map (\<lambda>(b, x). (b, Fin x)) ps"

section \<open>Example inputs\<close>

definition chd_example :: dataframe where
  "chd_example = \<lparr>nrows = 4,
     columns = [(''MCQ160C'', [Some 1, Some 2, None, None]),
                (''MCQ160D'', [Some 2, Some 2, Some 2, None]),
                (''MCQ160E'', [Some 2, Some 2, Some 2, None]),
                (''DMARETHN'', [Some 1, Some 2, Some 3, Some 7]),
                (''HAD1'', [None, Some 2, Some 9, Some 2]),
                (''HAD2'', [None, Some 2, Some 2, Some 1]),
                (''HAD3'', [Some 2, Some 2, Some 2, None])]\<rparr>"

definition ldl_example :: dataframe where
  "ldl_example = \<lparr>nrows = 4,
     columns = [(''tchol'', [Some 220, Some 300, Some 180, None]),
                (''hdl'', [Some 50, Some 40, Some 60, Some 50]),
                (''trigly'', [Some 150, Some 400, Some 450, Some 100])]\<rparr>"

definition smoking_example :: dataframe where
  "smoking_example = \<lparr>nrows = 6,
     columns = [(''smoke_100'', [Some 2, Some 1, Some 1, Some 1, None, Some 1]),
                (''smoke_now'', [Some 1, Some 1, Some 2, Some 3, Some 1, None])]\<rparr>"

definition no_columns :: dataframe where
  "no_columns = \<lparr>nrows = 2, columns = []\<rparr>"

text \<open>Rows for the estimator, as pairs (outcome, weight).\<close>

definition zero_weight_example :: "(cell \<times> cell) list" where
  "zero_weight_example = [(Some 1, Some 1), (Some 0, Some 1), (Some 0, Some 0), (None, Some 2)]"

definition all_invalid_example :: "(cell \<times> cell) list" where
  "all_invalid_example = [(None, Some 1), (Some 1, None)]"

text \<open>Rows of a harmonised data set, before the exclusions of \<^verbatim>\<open>main\<close>.\<close>

definition excluded_example :: "participant list" where
  "excluded_example =
     [\<lparr>era = ''Era2_1999-2006'', RIDAGEYR = Some 45, RIAGENDR = Some 1, RIDRETH1 = Some 3,
       chd_composite = Some 1, WTMEC2YR = Some 2\<rparr>,
      \<lparr>era = ''Era2_1999-2006'', RIDAGEYR = Some 52, RIAGENDR = Some 2, RIDRETH1 = Some 4,
       chd_composite = Some 0, WTMEC2YR = Some 0\<rparr>,
      \<lparr>era = ''Era2_1999-2006'', RIDAGEYR = Some 19, RIAGENDR = Some 2, RIDRETH1 = Some 4,
       chd_composite = Some 0, WTMEC2YR = Some 3\<rparr>,
      \<lparr>era = ''Era2_1999-2006'', RIDAGEYR = Some 61, RIAGENDR = Some 2, RIDRETH1 = Some 1,
       chd_composite = None, WTMEC2YR = Some 3\<rparr>,
      \<lparr>era = ''Era2_1999-2006'', RIDAGEYR = Some 33, RIAGENDR = Some 1, RIDRETH1 = Some 1,
       chd_composite = Some 0, WTMEC2YR = Some 6\<rparr>]"

definition binary_example :: "(cell \<times> cell) list" where
  "binary_example = [(Some 1, Some 3), (Some 0, Some 1), (None, Some 5), (Some 0, Some 4)]"

text \<open>A valid record of age 25; the analyses are run on copies of it.\<close>

definition participant_25 :: participant where
  "participant_25 =
     \<lparr>era = ''Era3_2007-2014'', RIDAGEYR = Some 25, RIAGENDR = Some 1, RIDRETH1 = Some 3,
      chd_composite = Some 0, WTMEC2YR = Some 1\<rparr>"

section \<open>Auxiliary facts on columns\<close>

lemma length_series_eq [simp]: "length (series_eq s v) = length s"
  by (simp add: series_eq_def)

lemma length_series_ge [simp]: "length (series_ge s v) = length s"
  by (simp add: series_ge_def)

lemma length_series_isin [simp]: "length (series_isin s vs) = length s"
  by (simp add: series_isin_def)

lemma length_mask_or [simp]: "length (mask_or a b) = min (length a) (length b)"
  by (simp add: mask_or_def)

lemma length_mask_and [simp]: "length (mask_and a b) = min (length a) (length b)"
  by (simp add: mask_and_def)

lemma length_mask_assign [simp]: "length (mask_assign s m v) = min (length s) (length m)"
  by (simp add: mask_assign_def)

lemma length_astype_float [simp]: "length (astype_float m) = length m"
  by (simp add: astype_float_def)

lemma length_series_sub [simp]: "length (series_sub a b) = min (length a) (length b)"
  by (simp add: series_sub_def)

lemma length_series_div [simp]: "length (series_div a d) = length a"
  by (simp add: series_div_def)

lemma length_nan_series [simp]: "length (nan_series df) = nrows df"
  by (simp add: nan_series_def)

lemma nth_nan_series [simp]: "i < nrows df \<Longrightarrow> nan_series df ! i = None"
  by (simp add: nan_series_def)

lemma nth_series_eq [simp]: "i < length s \<Longrightarrow> series_eq s v ! i = (s ! i = Some v)"
  by (simp add: series_eq_def)

lemma nth_series_ge [simp]:
  "i < length s \<Longrightarrow> series_ge s v ! i = (case s ! i of None \<Rightarrow> False | Some x \<Rightarrow> v \<le> x)"
  by (simp add: series_ge_def)

lemma nth_series_isin [simp]:
  "i < length s \<Longrightarrow> series_isin s vs ! i = (case s ! i of None \<Rightarrow> False | Some x \<Rightarrow> x \<in> set vs)"
  by (simp add: series_isin_def)

lemma nth_mask_or [simp]:
  "i < length a \<Longrightarrow> i < length b \<Longrightarrow> mask_or a b ! i = (a ! i \<or> b ! i)"
  by (simp add: mask_or_def)

lemma nth_mask_and [simp]:
  "i < length a \<Longrightarrow> i < length b \<Longrightarrow> mask_and a b ! i = (a ! i \<and> b ! i)"
  by (simp add: mask_and_def)

lemma nth_mask_assign [simp]:
  "i < length s \<Longrightarrow> i < length m \<Longrightarrow> mask_assign s m v ! i = (if m ! i then v else s ! i)"
  by (simp add: mask_assign_def)

lemma nth_astype_float [simp]:
  "i < length m \<Longrightarrow> astype_float m ! i = (if m ! i then Some 1 else Some 0)"
  by (simp add: astype_float_def)

lemma nth_series_sub [simp]:
  "i < length a \<Longrightarrow> i < length b \<Longrightarrow> series_sub a b ! i = cell_sub (a ! i) (b ! i)"
  by (simp add: series_sub_def)

lemma nth_series_div [simp]: "i < length a \<Longrightarrow> series_div a d ! i = cell_div (a ! i) d"
  by (simp add: series_div_def)

lemma wf_df_column_length:
  "wf_df df \<Longrightarrow> map_of (columns df) name = Some s \<Longrightarrow> length s = nrows df"
  by (auto simp: wf_df_def list_all_iff dest!: map_of_SomeD)

lemma length_df_get [simp]: "wf_df df \<Longrightarrow> length (df_get df name) = nrows df"
  by (auto simp: df_get_def wf_df_column_length split: option.splits)

lemma df_get_absent: "map_of (columns df) name = None \<Longrightarrow> df_get df name = nan_series df"
  by (simp add: df_get_def)

lemma df_get_present: "map_of (columns df) name = Some s \<Longrightarrow> df_get df name = s"
  by (simp add: df_get_def)

lemma length_chd_masks:
  "length cmp0 = n \<Longrightarrow> length chd = n \<Longrightarrow> length angina = n \<Longrightarrow> length mi = n \<Longrightarrow>
   length (chd_masks cmp0 chd angina mi) = n"
  by (simp add: chd_masks_def Let_def)

lemma nth_chd_masks:
  "length cmp0 = n \<Longrightarrow> length chd = n \<Longrightarrow> length angina = n \<Longrightarrow> length mi = n \<Longrightarrow> i < n \<Longrightarrow>
   chd_masks cmp0 chd angina mi ! i =
     (if chd ! i = Some 1 \<or> angina ! i = Some 1 \<or> mi ! i = Some 1 then Some 1
      else if chd ! i = Some 2 \<and> angina ! i = Some 2 \<and> mi ! i = Some 2 then Some 0
      else cmp0 ! i)"
  by (auto simp: chd_masks_def Let_def)

lemma chd_masks_row:
  assumes "length chd = n" "length angina = n" "length mi = n" "i < n"
  shows "length (chd_masks (replicate n None) chd angina mi) = n \<and>
         chd_masks (replicate n None) chd angina mi ! i = spec_chd_rule (chd ! i) (angina ! i) (mi ! i)"
  using assms by (simp add: length_chd_masks nth_chd_masks [where n = n] spec_chd_rule_def)

section \<open>The renaming and the column reads of \<^verbatim>\<open>harmonize_nhanes_iii\<close>\<close>

lemma rename_columns_Cons:
  "rename_columns m ((a, s) # xs) = (rename_column m a, s) # rename_columns m xs"
  by (simp add: rename_columns_def)

lemma map_of_rename_columns:
  assumes "\<And>c. rename_column m c = k \<longleftrightarrow> c = k"
  shows "map_of (rename_columns m cols) k = map_of cols k"
proof (induction cols)
  case Nil
  then show ?case by (simp add: rename_columns_def)
next
  case (Cons x xs)
  obtain a s where x: "x = (a, s)" by (cases x)
  show ?case
    unfolding x rename_columns_Cons
  proof (cases "a = k")
    case True
    then have "rename_column m a = k" using assms [of a] by blast
    then show "map_of ((rename_column m a, s) # rename_columns m xs) k = map_of ((a, s) # xs) k"
      using True by simp
  next
    case False
    then have "rename_column m a \<noteq> k" using assms [of a] by blast
    then show "map_of ((rename_column m a, s) # rename_columns m xs) k = map_of ((a, s) # xs) k"
      using False Cons.IH by simp
  qed
qed

lemma rename_column_fixed:
  "rename_column NHANES_III_RENAME c = ''HAD1'' \<longleftrightarrow> c = ''HAD1''"
  "rename_column NHANES_III_RENAME c = ''HAD2'' \<longleftrightarrow> c = ''HAD2''"
  "rename_column NHANES_III_RENAME c = ''HAD3'' \<longleftrightarrow> c = ''HAD3''"
  by (simp_all add: rename_column_def NHANES_III_RENAME_def)

lemma rename_column_race:
  "rename_column NHANES_III_RENAME c = ''RIDRETH1'' \<longleftrightarrow> c = ''DMARETHN'' \<or> c = ''RIDRETH1''"
  by (simp add: rename_column_def NHANES_III_RENAME_def)

lemma label_count_renamed_race:
  "label_count ''RIDRETH1'' (rename_columns NHANES_III_RENAME cols) =
     length (filter (\<lambda>cs. fst cs = ''DMARETHN'' \<or> fst cs = ''RIDRETH1'') cols)"
  by (induction cols) (simp_all add: label_count_def rename_columns_def rename_column_race)

lemma filter_two_names:
  "distinct (map fst xs) \<Longrightarrow> \<not> (a \<in> fst ` set xs \<and> b \<in> fst ` set xs) \<Longrightarrow>
   length (filter (\<lambda>cs. fst cs = a \<or> fst cs = b) xs) \<le> 1"
proof (induction xs)
  case Nil
  then show ?case by simp
next
  case (Cons x xs)
  show ?case
  proof (cases "fst x = a \<or> fst x = b")
    case True
    then have "a \<notin> fst ` set xs" "b \<notin> fst ` set xs" using Cons.prems by auto
    then have "filter (\<lambda>cs. fst cs = a \<or> fst cs = b) xs = []"
      by (auto simp: filter_empty_conv)
    then show ?thesis by simp
  next
    case False
    then show ?thesis using Cons by auto
  qed
qed

lemma filter_no_names:
  "a \<notin> fst ` set xs \<Longrightarrow> b \<notin> fst ` set xs \<Longrightarrow> filter (\<lambda>cs. fst cs = a \<or> fst cs = b) xs = []"
  by (auto simp: filter_empty_conv)

lemma map_of_renamed_race:
  "map_of (rename_columns NHANES_III_RENAME cols) ''RIDRETH1'' = None \<longleftrightarrow>
     ''DMARETHN'' \<notin> fst ` set cols \<and> ''RIDRETH1'' \<notin> fst ` set cols"
proof (induction cols)
  case Nil
  then show ?case by (simp add: rename_columns_def)
next
  case (Cons x xs)
  obtain a s where x: "x = (a, s)" by (cases x)
  show ?case
    unfolding x rename_columns_Cons
  proof (cases "a = ''DMARETHN'' \<or> a = ''RIDRETH1''")
    case True
    then have "rename_column NHANES_III_RENAME a = ''RIDRETH1''"
      by (simp add: rename_column_race)
    then show "map_of ((rename_column NHANES_III_RENAME a, s) # rename_columns NHANES_III_RENAME xs)
          ''RIDRETH1'' = None \<longleftrightarrow>
        ''DMARETHN'' \<notin> fst ` set ((a, s) # xs) \<and> ''RIDRETH1'' \<notin> fst ` set ((a, s) # xs)"
      using True by auto
  next
    case False
    then have "rename_column NHANES_III_RENAME a \<noteq> ''RIDRETH1''"
      by (simp add: rename_column_race)
    then show "map_of ((rename_column NHANES_III_RENAME a, s) # rename_columns NHANES_III_RENAME xs)
          ''RIDRETH1'' = None \<longleftrightarrow>
        ''DMARETHN'' \<notin> fst ` set ((a, s) # xs) \<and> ''RIDRETH1'' \<notin> fst ` set ((a, s) # xs)"
      using False Cons.IH by auto
  qed
qed

lemma harmonize_nhanes_iii_no_race_column:
  assumes "''DMARETHN'' \<notin> fst ` set (columns df)" "''RIDRETH1'' \<notin> fst ` set (columns df)"
  shows "harmonize_nhanes_iii df = Inl KeyError"
proof -
  have none: "map_of (rename_columns NHANES_III_RENAME (columns df)) ''RIDRETH1'' = None"
    using assms by (simp add: map_of_renamed_race)
  have "label_count ''RIDRETH1'' (rename_columns NHANES_III_RENAME (columns df)) = 0"
    using assms by (simp add: label_count_renamed_race filter_no_names)
  then have once: "\<not> 1 < label_count ''RIDRETH1'' (rename_columns NHANES_III_RENAME (columns df))"
    by simp
  show ?thesis
    unfolding harmonize_nhanes_iii_def Let_def
    by (subst if_not_P [OF once], subst none, subst option.case, rule refl)
qed

lemma map_of_floats:
  "map_of (map (\<lambda>cs. (fst cs, Floats (snd cs))) xs) k = map_option Floats (map_of xs k)"
  by (induction xs) auto

lemma harmonize_nhanes_iii_composite:
  assumes d: "distinct (map fst (columns df))"
    and r: "(''DMARETHN'' \<in> fst ` set (columns df)) \<noteq> (''RIDRETH1'' \<in> fst ` set (columns df))"
    and h: "map_of (columns df) ''HAD1'' = Some had1" "map_of (columns df) ''HAD2'' = Some had2"
      "map_of (columns df) ''HAD3'' = Some had3"
  shows "\<exists>out. harmonize_nhanes_iii df = Inr out \<and> h_nrows out = nrows df \<and>
     map_of (h_columns out) ''chd_composite'' =
       Some (Floats (chd_masks (replicate (nrows df) None) had1 had2 had3))"
proof -
  let ?cols0 = "rename_columns NHANES_III_RENAME (columns df)"
  have "label_count ''RIDRETH1'' ?cols0 \<le> 1"
    unfolding label_count_renamed_race using d r by (intro filter_two_names) auto
  then have once: "\<not> 1 < label_count ''RIDRETH1'' ?cols0" by simp
  have "map_of ?cols0 ''RIDRETH1'' \<noteq> None"
    using r by (auto simp: map_of_renamed_race)
  then obtain race where race: "map_of ?cols0 ''RIDRETH1'' = Some race" by auto
  have had: "map_of ?cols0 ''HAD1'' = Some had1" "map_of ?cols0 ''HAD2'' = Some had2"
    "map_of ?cols0 ''HAD3'' = Some had3"
    using h by (simp_all add: map_of_rename_columns rename_column_fixed)
  let ?cols2 = "AList.update ''chd_composite'' (replicate (nrows df) None)
      (AList.update ''RIDRETH1'' (map race_recode race) ?cols0)"
  let ?composite = "chd_masks (replicate (nrows df) None) had1 had2 had3"
  let ?cols5 = "AList.update ''cycle'' (Strings (replicate (nrows df) ''1988-1994''))
      (AList.update ''era'' (Strings (replicate (nrows df) ''Era1_1988-1994''))
        (map (\<lambda>cs. (fst cs, Floats (snd cs))) (AList.update ''chd_composite'' ?composite ?cols2)))"
  let ?out = "\<lparr>h_nrows = nrows df, h_columns = ?cols5\<rparr>"
  have l: "map_of ?cols2 ''HAD1'' = Some had1" "map_of ?cols2 ''HAD2'' = Some had2"
    "map_of ?cols2 ''HAD3'' = Some had3"
    using had by (simp_all add: update_conv')
  have eq: "harmonize_nhanes_iii df = Inr ?out"
    unfolding harmonize_nhanes_iii_def Let_def
    by (subst if_not_P [OF once], subst race, subst option.case, subst l(1), subst option.case,
        subst l(2), subst option.case, subst l(3), subst option.case, rule refl)
  have c: "map_of ?cols5 ''chd_composite'' = Some (Floats ?composite)"
    by (simp add: update_conv' map_of_floats)
  show ?thesis
  proof (intro exI conjI)
    show "harmonize_nhanes_iii df = Inr ?out" by (rule eq)
    show "h_nrows ?out = nrows df" by simp
    show "map_of (h_columns ?out) ''chd_composite'' = Some (Floats ?composite)"
      using c by simp
  qed
qed

section \<open>The composite CHD outcome\<close>

text \<open>
  Claim C1. In a data frame that holds the three yes/no CHD indicator columns, the
  composite outcome of every record follows the tri-state rule: it is 1 (Positive) if
  one of the three indicators is 1 (Yes), 0 (Negative) if all three are 2 (No), and NaN
  (Unknown) in every other case, so a record with two missing indicators and one No is
  Unknown. This holds for \<^verbatim>\<open>create_chd_composite\<close> on either variable naming, and for
  the \<^verbatim>\<open>chd_composite\<close> column of the frame that \<^verbatim>\<open>harmonize_nhanes_iii\<close> returns
  on a frame of the adult file: distinct column names, among them the race column under
  one of its two names, which the function reads before it computes the composite.
\<close>

theorem chd_composite_tri_state:
  assumes wf: "wf_df df" and i: "i < nrows df"
  shows "(map_of CHD_VARS var_type = Some (a, b, c) \<and> map_of (columns df) a = Some chd \<and>
          map_of (columns df) b = Some angina \<and> map_of (columns df) c = Some mi \<longrightarrow>
          (\<exists>out. create_chd_composite df var_type = Inr out \<and> length out = nrows df \<and>
             out ! i = spec_chd_rule (chd ! i) (angina ! i) (mi ! i))) \<and>
         (distinct (map fst (columns df)) \<and>
          (''DMARETHN'' \<in> fst ` set (columns df)) \<noteq> (''RIDRETH1'' \<in> fst ` set (columns df)) \<and>
          map_of (columns df) ''HAD1'' = Some had1 \<and> map_of (columns df) ''HAD2'' = Some had2 \<and>
          map_of (columns df) ''HAD3'' = Some had3 \<longrightarrow>
          (\<exists>out col. harmonize_nhanes_iii df = Inr out \<and> h_nrows out = nrows df \<and>
             map_of (h_columns out) ''chd_composite'' = Some (Floats col) \<and>
             length col = nrows df \<and>
             col ! i = spec_chd_rule (had1 ! i) (had2 ! i) (had3 ! i)))"
proof (intro conjI impI)
  assume h: "map_of CHD_VARS var_type = Some (a, b, c) \<and> map_of (columns df) a = Some chd \<and>
          map_of (columns df) b = Some angina \<and> map_of (columns df) c = Some mi"
  then have "length chd = nrows df" "length angina = nrows df" "length mi = nrows df"
    using wf by (auto intro: wf_df_column_length)
  from chd_masks_row [OF this i] h
  show "\<exists>out. create_chd_composite df var_type = Inr out \<and> length out = nrows df \<and>
             out ! i = spec_chd_rule (chd ! i) (angina ! i) (mi ! i)"
    by (simp add: create_chd_composite_def df_get_present nan_series_def)
next
  assume h: "distinct (map fst (columns df)) \<and>
          (''DMARETHN'' \<in> fst ` set (columns df)) \<noteq> (''RIDRETH1'' \<in> fst ` set (columns df)) \<and>
          map_of (columns df) ''HAD1'' = Some had1 \<and> map_of (columns df) ''HAD2'' = Some had2 \<and>
          map_of (columns df) ''HAD3'' = Some had3"
  then have len: "length had1 = nrows df" "length had2 = nrows df" "length had3 = nrows df"
    using wf by (auto intro: wf_df_column_length)
  from h have "\<exists>out. harmonize_nhanes_iii df = Inr out \<and> h_nrows out = nrows df \<and>
     map_of (h_columns out) ''chd_composite'' =
       Some (Floats (chd_masks (replicate (nrows df) None) had1 had2 had3))"
    by (intro harmonize_nhanes_iii_composite) simp_all
  then obtain out where out: "harmonize_nhanes_iii df = Inr out" "h_nrows out = nrows df"
    "map_of (h_columns out) ''chd_composite'' =
       Some (Floats (chd_masks (replicate (nrows df) None) had1 had2 had3))"
    by blast
  from out chd_masks_row [OF len i]
  show "\<exists>out col. harmonize_nhanes_iii df = Inr out \<and> h_nrows out = nrows df \<and>
             map_of (h_columns out) ''chd_composite'' = Some (Floats col) \<and>
             length col = nrows df \<and>
             col ! i = spec_chd_rule (had1 ! i) (had2 ! i) (had3 ! i)"
    by blast
qed

theorem chd_composite_tri_state_witness:
  "create_chd_composite chd_example ''continuous'' = Inr [Some 1, Some 0, None, None] \<and>
   (\<exists>out. harmonize_nhanes_iii chd_example = Inr out \<and> h_nrows out = 4 \<and>
      map_of (h_columns out) ''chd_composite'' = Some (Floats [None, Some 0, None, Some 1]))"
proof -
  have wf: "wf_df chd_example" by (simp add: wf_df_def chd_example_def)
  have c: "map_of CHD_VARS ''continuous'' = Some (''MCQ160C'', ''MCQ160D'', ''MCQ160E'')"
    by (simp add: CHD_VARS_def)
  have n: "nrows chd_example = 4" by (simp add: chd_example_def)
  have cols: "map_of (columns chd_example) ''MCQ160C'' = Some [Some 1, Some 2, None, None]"
    "map_of (columns chd_example) ''MCQ160D'' = Some [Some 2, Some 2, Some 2, None]"
    "map_of (columns chd_example) ''MCQ160E'' = Some [Some 2, Some 2, Some 2, None]"
    "map_of (columns chd_example) ''HAD1'' = Some [None, Some 2, Some 9, Some 2]"
    "map_of (columns chd_example) ''HAD2'' = Some [None, Some 2, Some 2, Some 1]"
    "map_of (columns chd_example) ''HAD3'' = Some [Some 2, Some 2, Some 2, None]"
    by (simp_all add: chd_example_def)
  have names: "distinct (map fst (columns chd_example))"
    "(''DMARETHN'' \<in> fst ` set (columns chd_example)) \<noteq> (''RIDRETH1'' \<in> fst ` set (columns chd_example))"
    by (simp_all add: chd_example_def)
  have r: "\<And>i. i < 4 \<Longrightarrow>
    (\<exists>out. create_chd_composite chd_example ''continuous'' = Inr out \<and> length out = 4 \<and>
       out ! i = spec_chd_rule ([Some 1, Some 2, None, None] ! i) ([Some 2, Some 2, Some 2, None] ! i)
                   ([Some 2, Some 2, Some 2, None] ! i)) \<and>
    (\<exists>out col. harmonize_nhanes_iii chd_example = Inr out \<and> h_nrows out = 4 \<and>
       map_of (h_columns out) ''chd_composite'' = Some (Floats col) \<and> length col = 4 \<and>
       col ! i = spec_chd_rule ([None, Some 2, Some 9, Some 2] ! i) ([None, Some 2, Some 2, Some 1] ! i)
                   ([Some 2, Some 2, Some 2, None] ! i))"
    using chd_composite_tri_state [OF wf, of _ "''continuous''" "''MCQ160C''" "''MCQ160D''" "''MCQ160E''"
        "[Some 1, Some 2, None, None]" "[Some 2, Some 2, Some 2, None]" "[Some 2, Some 2, Some 2, None]"
        "[None, Some 2, Some 9, Some 2]" "[None, Some 2, Some 2, Some 1]" "[Some 2, Some 2, Some 2, None]"]
      c cols n names by simp
  obtain out where o: "create_chd_composite chd_example ''continuous'' = Inr out" "length out = 4"
    using r [of 0] by auto
  obtain out3 col where o3: "harmonize_nhanes_iii chd_example = Inr out3" "h_nrows out3 = 4"
    "map_of (h_columns out3) ''chd_composite'' = Some (Floats col)" "length col = 4"
    using r [of 0] by auto
  have "out ! 0 = Some 1" "out ! 1 = Some 0" "out ! 2 = None" "out ! 3 = None"
    using r [of 0] r [of 1] r [of 2] r [of 3] o by (simp_all add: spec_chd_rule_def)
  moreover have "col ! 0 = None" "col ! 1 = Some 0" "col ! 2 = None" "col ! 3 = Some 1"
    using r [of 0] r [of 1] r [of 2] r [of 3] o3 by (simp_all add: spec_chd_rule_def)
  ultimately have "out = [Some 1, Some 0, None, None]" "col = [None, Some 0, None, Some 1]"
    using o(2) o3(4) by (auto simp: list_eq_iff_nth_eq less_Suc_eq numeral_eq_Suc)
  with o o3 show ?thesis by simp
qed

text \<open>
  The whole of \<^verbatim>\<open>harmonize_nhanes_iii\<close> on the example frame: the race column is
  renamed and recoded (the code 7 is no key of the recode and becomes NaN), the composite
  and the two text columns are appended. On a frame without a race column the read
  \<^verbatim>\<open>df["RIDRETH1"]\<close> raises.
\<close>

lemma harmonize_nhanes_iii_examples:
  "harmonize_nhanes_iii chd_example =
     Inr \<lparr>h_nrows = 4,
          h_columns =
            [(''MCQ160C'', Floats [Some 1, Some 2, None, None]),
             (''MCQ160D'', Floats [Some 2, Some 2, Some 2, None]),
             (''MCQ160E'', Floats [Some 2, Some 2, Some 2, None]),
             (''RIDRETH1'', Floats [Some 3, Some 4, Some 1, None]),
             (''HAD1'', Floats [None, Some 2, Some 9, Some 2]),
             (''HAD2'', Floats [None, Some 2, Some 2, Some 1]),
             (''HAD3'', Floats [Some 2, Some 2, Some 2, None]),
             (''chd_composite'', Floats [None, Some 0, None, Some 1]),
             (''era'', Strings [''Era1_1988-1994'', ''Era1_1988-1994'', ''Era1_1988-1994'', ''Era1_1988-1994'']),
             (''cycle'', Strings [''1988-1994'', ''1988-1994'', ''1988-1994'', ''1988-1994''])]\<rparr>"
  "harmonize_nhanes_iii ldl_example = Inl KeyError"
proof -
  have r: "rename_columns NHANES_III_RENAME (columns chd_example) =
      [(''MCQ160C'', [Some 1, Some 2, None, None]),
       (''MCQ160D'', [Some 2, Some 2, Some 2, None]),
       (''MCQ160E'', [Some 2, Some 2, Some 2, None]),
       (''RIDRETH1'', [Some 1, Some 2, Some 3, Some 7]),
       (''HAD1'', [None, Some 2, Some 9, Some 2]),
       (''HAD2'', [None, Some 2, Some 2, Some 1]),
       (''HAD3'', [Some 2, Some 2, Some 2, None])]"
    by (simp add: rename_columns_def rename_column_def NHANES_III_RENAME_def chd_example_def)
  have m: "chd_masks [None, None, None, None] [None, Some 2, Some 9, Some 2]
      [None, Some 2, Some 2, Some 1] [Some 2, Some 2, Some 2, None] = [None, Some 0, None, Some 1]"
    by (simp add: chd_masks_def Let_def series_eq_def mask_or_def mask_and_def mask_assign_def)
  have n: "nrows chd_example = 4" by (simp add: chd_example_def)
  show "harmonize_nhanes_iii chd_example = Inr \<lparr>h_nrows = 4,
          h_columns =
            [(''MCQ160C'', Floats [Some 1, Some 2, None, None]),
             (''MCQ160D'', Floats [Some 2, Some 2, Some 2, None]),
             (''MCQ160E'', Floats [Some 2, Some 2, Some 2, None]),
             (''RIDRETH1'', Floats [Some 3, Some 4, Some 1, None]),
             (''HAD1'', Floats [None, Some 2, Some 9, Some 2]),
             (''HAD2'', Floats [None, Some 2, Some 2, Some 1]),
             (''HAD3'', Floats [Some 2, Some 2, Some 2, None]),
             (''chd_composite'', Floats [None, Some 0, None, Some 1]),
             (''era'', Strings [''Era1_1988-1994'', ''Era1_1988-1994'', ''Era1_1988-1994'', ''Era1_1988-1994'']),
             (''cycle'', Strings [''1988-1994'', ''1988-1994'', ''1988-1994'', ''1988-1994''])]\<rparr>"
    by (simp add: harmonize_nhanes_iii_def Let_def r n m label_count_def race_recode_def
        numeral_eq_Suc)
  show "harmonize_nhanes_iii ldl_example = Inl KeyError"
    by (rule harmonize_nhanes_iii_no_race_column) (simp_all add: ldl_example_def)
qed

section \<open>Calculated LDL\<close>

lemma nth_calculate_ldl:
  assumes "wf_df df" "i < nrows df"
  shows "calculate_ldl df ! i =
     (case df_get df ''trigly'' ! i of
        None \<Rightarrow> None
      | Some tg \<Rightarrow> if 400 \<le> tg then None
                   else cell_sub (cell_sub (df_get df ''tchol'' ! i) (df_get df ''hdl'' ! i)) (Some (tg / 5)))"
  using assms by (simp add: calculate_ldl_def Let_def cell_sub_def cell_div_def split: option.splits)

lemma length_calculate_ldl: "wf_df df \<Longrightarrow> length (calculate_ldl df) = nrows df"
  by (simp add: calculate_ldl_def Let_def)

text \<open>
  Claim C8. For every record, the calculated LDL is total cholesterol minus HDL minus
  triglycerides / 5 when the three values are present and triglycerides are below 400,
  and it is missing whenever triglycerides are 400 or more, whatever the arithmetic gives
  (and missing when an input is missing). With TC = 220, HDL = 50, TG = 150 the LDL is
  140; with TG = 400 or TG = 450 it is missing.
\<close>

theorem calculate_ldl_friedewald:
  assumes "wf_df df" "i < nrows df"
  shows "length (calculate_ldl df) = nrows df \<and>
    (\<forall>tc hdl tg. df_get df ''tchol'' ! i = Some tc \<and> df_get df ''hdl'' ! i = Some hdl \<and>
        df_get df ''trigly'' ! i = Some tg \<and> tg < 400 \<longrightarrow>
        calculate_ldl df ! i = Some (tc - hdl - tg / 5)) \<and>
    (\<forall>tg. df_get df ''trigly'' ! i = Some tg \<and> 400 \<le> tg \<longrightarrow> calculate_ldl df ! i = None) \<and>
    (df_get df ''tchol'' ! i = None \<or> df_get df ''hdl'' ! i = None \<or> df_get df ''trigly'' ! i = None \<longrightarrow>
        calculate_ldl df ! i = None)"
  using assms
  by (auto simp: nth_calculate_ldl length_calculate_ldl cell_sub_def split: option.splits)

theorem calculate_ldl_friedewald_witness:
  "calculate_ldl ldl_example ! 0 = Some 140 \<and> calculate_ldl ldl_example ! 1 = None \<and>
   calculate_ldl ldl_example ! 2 = None \<and> calculate_ldl ldl_example ! 3 = None \<and>
   length (calculate_ldl ldl_example) = 4"
proof -
  have wf: "wf_df ldl_example" by (simp add: wf_df_def ldl_example_def)
  have g: "df_get ldl_example ''tchol'' = [Some 220, Some 300, Some 180, None]"
    "df_get ldl_example ''hdl'' = [Some 50, Some 40, Some 60, Some 50]"
    "df_get ldl_example ''trigly'' = [Some 150, Some 400, Some 450, Some 100]"
    by (simp_all add: df_get_def ldl_example_def)
  have n: "nrows ldl_example = 4" by (simp add: ldl_example_def)
  show ?thesis
    using calculate_ldl_friedewald [OF wf, of 0] calculate_ldl_friedewald [OF wf, of 1]
      calculate_ldl_friedewald [OF wf, of 2] calculate_ldl_friedewald [OF wf, of 3]
    by (simp add: g n)
qed

section \<open>Smoking status\<close>

lemma nth_define_smoking_status:
  assumes "wf_df df" "i < nrows df"
  shows "define_smoking_status df ! i =
     (if df_get df ''smoke_100'' ! i = Some 1 \<and> df_get df ''smoke_now'' ! i = Some 3 then Some 2
      else if df_get df ''smoke_100'' ! i = Some 1 \<and>
              (df_get df ''smoke_now'' ! i = Some 1 \<or> df_get df ''smoke_now'' ! i = Some 2) then Some 1
      else if df_get df ''smoke_100'' ! i = Some 2 then Some 3
      else None)"
  using assms by (auto simp: define_smoking_status_def Let_def split: option.splits)

lemma length_define_smoking_status: "wf_df df \<Longrightarrow> length (define_smoking_status df) = nrows df"
  by (simp add: define_smoking_status_def Let_def)

text \<open>
  Claim C9. For every record, the smoking status is 3 (Never) exactly when the lifetime
  indicator is 2 (No), whatever the current-smoking answer; 1 (Current) exactly when the
  lifetime indicator is 1 (Yes) and the current answer is 1 (every day) or 2 (some days);
  2 (Former) exactly when the lifetime indicator is 1 and the current answer is 3 (not at
  all); and missing for every other combination, a missing lifetime indicator included.
\<close>

theorem define_smoking_status_classes:
  assumes "wf_df df" "i < nrows df"
  shows "length (define_smoking_status df) = nrows df \<and>
    (define_smoking_status df ! i = Some 3 \<longleftrightarrow> df_get df ''smoke_100'' ! i = Some 2) \<and>
    (define_smoking_status df ! i = Some 1 \<longleftrightarrow>
       df_get df ''smoke_100'' ! i = Some 1 \<and>
       (df_get df ''smoke_now'' ! i = Some 1 \<or> df_get df ''smoke_now'' ! i = Some 2)) \<and>
    (define_smoking_status df ! i = Some 2 \<longleftrightarrow>
       df_get df ''smoke_100'' ! i = Some 1 \<and> df_get df ''smoke_now'' ! i = Some 3) \<and>
    (define_smoking_status df ! i = None \<longleftrightarrow>
       df_get df ''smoke_100'' ! i \<noteq> Some 2 \<and>
       \<not> (df_get df ''smoke_100'' ! i = Some 1 \<and>
          (df_get df ''smoke_now'' ! i = Some 1 \<or> df_get df ''smoke_now'' ! i = Some 2 \<or>
           df_get df ''smoke_now'' ! i = Some 3))) \<and>
    define_smoking_status df ! i \<in> {Some 1, Some 2, Some 3, None}"
  using assms by (simp add: nth_define_smoking_status length_define_smoking_status)

theorem define_smoking_status_classes_witness:
  "define_smoking_status smoking_example = [Some 3, Some 1, Some 1, Some 2, None, None]"
proof -
  have wf: "wf_df smoking_example" by (simp add: wf_df_def smoking_example_def)
  have g: "df_get smoking_example ''smoke_100'' = [Some 2, Some 1, Some 1, Some 1, None, Some 1]"
    "df_get smoking_example ''smoke_now'' = [Some 1, Some 1, Some 2, Some 3, Some 1, None]"
    by (simp_all add: df_get_def smoking_example_def)
  have n: "nrows smoking_example = 6" by (simp add: smoking_example_def)
  have "length (define_smoking_status smoking_example) = 6"
    "define_smoking_status smoking_example ! 0 = Some 3"
    "define_smoking_status smoking_example ! 1 = Some 1"
    "define_smoking_status smoking_example ! 2 = Some 1"
    "define_smoking_status smoking_example ! 3 = Some 2"
    "define_smoking_status smoking_example ! 4 = None"
    "define_smoking_status smoking_example ! 5 = None"
    using define_smoking_status_classes [OF wf, of 0] define_smoking_status_classes [OF wf, of 1]
      define_smoking_status_classes [OF wf, of 2] define_smoking_status_classes [OF wf, of 3]
      define_smoking_status_classes [OF wf, of 4] define_smoking_status_classes [OF wf, of 5]
    by (simp_all add: g n)
  then show ?thesis
    by (auto simp: list_eq_iff_nth_eq less_Suc_eq numeral_eq_Suc)
qed

section \<open>Derived variables on a frame that lacks a source column\<close>

lemma series_ge_nan [simp]: "series_ge (replicate n None) v = replicate n False"
  by (simp add: series_ge_def)

lemma series_eq_nan [simp]: "series_eq (replicate n None) v = replicate n False"
  by (simp add: series_eq_def)

lemma mask_or_False [simp]: "mask_or (replicate n False) (replicate n False) = replicate n False"
  by (simp add: mask_or_def zip_replicate)

lemma astype_float_False [simp]: "astype_float (replicate n False) = replicate n (Some 0)"
  by (simp add: astype_float_def)

lemma astype_float_not_nan: "None \<notin> set (astype_float m)"
  by (auto simp: astype_float_def)

lemma calculate_ldl_absent:
  assumes wf: "wf_df df"
    and a: "map_of (columns df) ''tchol'' = None \<or> map_of (columns df) ''hdl'' = None \<or>
            map_of (columns df) ''trigly'' = None"
  shows "calculate_ldl df = nan_series df"
proof (rule nth_equalityI)
  show "length (calculate_ldl df) = length (nan_series df)"
    using wf by (simp add: length_calculate_ldl)
next
  fix i assume "i < length (calculate_ldl df)"
  then have i: "i < nrows df" using wf by (simp add: length_calculate_ldl)
  from a have "df_get df ''tchol'' ! i = None \<or> df_get df ''hdl'' ! i = None \<or>
      df_get df ''trigly'' ! i = None"
    using i by (auto simp: df_get_absent)
  then show "calculate_ldl df ! i = nan_series df ! i"
    using wf i by (auto simp: nth_calculate_ldl cell_sub_def split: option.splits)
qed

lemma define_smoking_status_absent:
  assumes wf: "wf_df df" and a: "map_of (columns df) ''smoke_100'' = None"
  shows "define_smoking_status df = nan_series df"
proof (rule nth_equalityI)
  show "length (define_smoking_status df) = length (nan_series df)"
    using wf by (simp add: length_define_smoking_status)
next
  fix i assume "i < length (define_smoking_status df)"
  then have i: "i < nrows df" using wf by (simp add: length_define_smoking_status)
  then show "define_smoking_status df ! i = nan_series df ! i"
    using wf a by (simp add: nth_define_smoking_status df_get_absent)
qed

lemma create_chd_composite_absent:
  assumes wf: "wf_df df" and vt: "map_of CHD_VARS var_type = Some (a, b, c)"
    and ab: "map_of (columns df) a = None \<or> map_of (columns df) b = None \<or> map_of (columns df) c = None"
    and i: "i < nrows df"
  shows "\<exists>out. create_chd_composite df var_type = Inr out \<and> length out = nrows df \<and>
     out ! i \<noteq> Some 0 \<and>
     (out ! i = Some 1 \<longleftrightarrow>
        df_get df a ! i = Some 1 \<or> df_get df b ! i = Some 1 \<or> df_get df c ! i = Some 1) \<and>
     (out ! i = None \<longleftrightarrow>
        \<not> (df_get df a ! i = Some 1 \<or> df_get df b ! i = Some 1 \<or> df_get df c ! i = Some 1))"
proof -
  have len: "length (df_get df a) = nrows df" "length (df_get df b) = nrows df"
    "length (df_get df c) = nrows df"
    using wf by simp_all
  have "df_get df a ! i = None \<or> df_get df b ! i = None \<or> df_get df c ! i = None"
    using ab i by (auto simp: df_get_absent)
  then show ?thesis
    using chd_masks_row [OF len i] vt
    by (auto simp: create_chd_composite_def nan_series_def spec_chd_rule_def)
qed

lemma create_chd_composite_all_absent:
  assumes wf: "wf_df df" and vt: "map_of CHD_VARS var_type = Some (a, b, c)"
    and ab: "map_of (columns df) a = None" "map_of (columns df) b = None" "map_of (columns df) c = None"
  shows "create_chd_composite df var_type = Inr (nan_series df)"
proof -
  have "chd_masks (replicate (nrows df) None) (replicate (nrows df) None) (replicate (nrows df) None)
          (replicate (nrows df) None) = replicate (nrows df) None"
    by (rule nth_equalityI) (simp_all add: length_chd_masks nth_chd_masks [where n = "nrows df"])
  then show ?thesis
    using vt ab by (simp add: create_chd_composite_def df_get_absent nan_series_def)
qed

lemma define_obesity_absent:
  "map_of (columns df) ''bmi'' = None \<Longrightarrow> define_obesity df = replicate (nrows df) (Some 0)"
  by (simp add: define_obesity_def df_get_absent nan_series_def)

lemma define_hyperlipidemia_absent:
  "map_of (columns df) ''tchol'' = None \<Longrightarrow> map_of (columns df) ''ldl_calc'' = None \<Longrightarrow>
   define_hyperlipidemia df = replicate (nrows df) (Some 0)"
  by (simp add: define_hyperlipidemia_def df_get_absent nan_series_def)

lemma define_diabetes_absent:
  "map_of (columns df) ''hba1c'' = None \<Longrightarrow> map_of (columns df) ''glucose'' = None \<Longrightarrow>
   map_of (columns df) ''insulin_use'' = None \<Longrightarrow> map_of (columns df) ''oral_dm_med'' = None \<Longrightarrow>
   map_of (columns df) ''diabetes_told'' = None \<Longrightarrow>
   define_diabetes df = replicate (nrows df) (Some 0)"
  by (simp add: define_diabetes_def df_get_absent nan_series_def)

lemma define_hypertension_absent:
  "filter (\<lambda>c. take 3 c = ''sbp'') (map fst (columns df)) = [] \<Longrightarrow>
   filter (\<lambda>c. take 3 c = ''dbp'') (map fst (columns df)) = [] \<Longrightarrow>
   map_of (columns df) ''bp_med'' = None \<Longrightarrow>
   define_hypertension df = replicate (nrows df) (Some 0)"
  by (simp add: define_hypertension_def df_get_absent nan_series_def)

lemma risk_factors_not_nan:
  "None \<notin> set (define_hypertension df)" "None \<notin> set (define_diabetes df)"
  "None \<notin> set (define_hyperlipidemia df)" "None \<notin> set (define_obesity df)"
  by (simp_all add: define_hypertension_def define_diabetes_def define_hyperlipidemia_def
      define_obesity_def Let_def astype_float_not_nan)

text \<open>
  Claim C4 says that every derived-variable function returns an entirely missing column
  when a source column is absent. \<^verbatim>\<open>define_obesity\<close> on a frame of two rows with no
  column at all returns 0.0 for both records: the comparison of NaN with 30 is false, and
  \<^verbatim>\<open>astype(float)\<close> turns false into 0.0.
\<close>

theorem derived_variables_absent_column_counterexample:
  "map_of (columns no_columns) ''bmi'' = None \<and> define_obesity no_columns = [Some 0, Some 0] \<and>
   define_obesity no_columns \<noteq> nan_series no_columns"
  by (simp add: define_obesity_absent no_columns_def nan_series_def numeral_2_eq_2)

text \<open>
  Claim C4, as the code has it. An absent source column is read as a column of NaN by
  \<^verbatim>\<open>df.get\<close>, and no derived-variable function has a raising branch for it. Then:
  the LDL column is entirely missing when one of its three source columns is absent; the
  smoking status is entirely missing when the lifetime-indicator column is absent; the
  CHD composite with an absent indicator column is never Negative (a record is Positive
  if a present indicator is Yes, and missing otherwise), and entirely missing when all
  three are absent; hypertension, diabetes, hyperlipidemia and obesity are never missing
  (a missing input counts as a criterion not met), and with all of their source columns
  absent they are 0.0 for every record.
\<close>

theorem derived_variables_absent_column:
  assumes wf: "wf_df df"
  shows
   "(map_of (columns df) ''tchol'' = None \<or> map_of (columns df) ''hdl'' = None \<or>
     map_of (columns df) ''trigly'' = None \<longrightarrow> calculate_ldl df = nan_series df) \<and>
    (map_of (columns df) ''smoke_100'' = None \<longrightarrow> define_smoking_status df = nan_series df) \<and>
    (map_of CHD_VARS var_type = Some (a, b, c) \<and> i < nrows df \<and>
     (map_of (columns df) a = None \<or> map_of (columns df) b = None \<or> map_of (columns df) c = None) \<longrightarrow>
       (\<exists>out. create_chd_composite df var_type = Inr out \<and> length out = nrows df \<and>
          out ! i \<noteq> Some 0 \<and>
          (out ! i = Some 1 \<longleftrightarrow>
             df_get df a ! i = Some 1 \<or> df_get df b ! i = Some 1 \<or> df_get df c ! i = Some 1) \<and>
          (out ! i = None \<longleftrightarrow>
             \<not> (df_get df a ! i = Some 1 \<or> df_get df b ! i = Some 1 \<or> df_get df c ! i = Some 1)))) \<and>
    (map_of CHD_VARS var_type = Some (a, b, c) \<and> map_of (columns df) a = None \<and>
     map_of (columns df) b = None \<and> map_of (columns df) c = None \<longrightarrow>
       create_chd_composite df var_type = Inr (nan_series df)) \<and>
    None \<notin> set (define_hypertension df) \<and> None \<notin> set (define_diabetes df) \<and>
    None \<notin> set (define_hyperlipidemia df) \<and> None \<notin> set (define_obesity df) \<and>
    (map_of (columns df) ''bmi'' = None \<longrightarrow> define_obesity df = replicate (nrows df) (Some 0)) \<and>
    (map_of (columns df) ''tchol'' = None \<and> map_of (columns df) ''ldl_calc'' = None \<longrightarrow>
       define_hyperlipidemia df = replicate (nrows df) (Some 0)) \<and>
    (map_of (columns df) ''hba1c'' = None \<and> map_of (columns df) ''glucose'' = None \<and>
     map_of (columns df) ''insulin_use'' = None \<and> map_of (columns df) ''oral_dm_med'' = None \<and>
     map_of (columns df) ''diabetes_told'' = None \<longrightarrow>
       define_diabetes df = replicate (nrows df) (Some 0)) \<and>
    (filter (\<lambda>c. take 3 c = ''sbp'') (map fst (columns df)) = [] \<and>
     filter (\<lambda>c. take 3 c = ''dbp'') (map fst (columns df)) = [] \<and>
     map_of (columns df) ''bp_med'' = None \<longrightarrow>
       define_hypertension df = replicate (nrows df) (Some 0))"
proof -
  have 1: "map_of (columns df) ''tchol'' = None \<or> map_of (columns df) ''hdl'' = None \<or>
     map_of (columns df) ''trigly'' = None \<longrightarrow> calculate_ldl df = nan_series df"
    using wf by (simp add: calculate_ldl_absent)
  have 2: "map_of (columns df) ''smoke_100'' = None \<longrightarrow> define_smoking_status df = nan_series df"
    using wf by (simp add: define_smoking_status_absent)
  have 3: "map_of CHD_VARS var_type = Some (a, b, c) \<and> i < nrows df \<and>
     (map_of (columns df) a = None \<or> map_of (columns df) b = None \<or> map_of (columns df) c = None) \<longrightarrow>
       (\<exists>out. create_chd_composite df var_type = Inr out \<and> length out = nrows df \<and>
          out ! i \<noteq> Some 0 \<and>
          (out ! i = Some 1 \<longleftrightarrow>
             df_get df a ! i = Some 1 \<or> df_get df b ! i = Some 1 \<or> df_get df c ! i = Some 1) \<and>
          (out ! i = None \<longleftrightarrow>
             \<not> (df_get df a ! i = Some 1 \<or> df_get df b ! i = Some 1 \<or> df_get df c ! i = Some 1)))"
    using create_chd_composite_absent [OF wf, of var_type a b c i] by blast
  have 4: "map_of CHD_VARS var_type = Some (a, b, c) \<and> map_of (columns df) a = None \<and>
     map_of (columns df) b = None \<and> map_of (columns df) c = None \<longrightarrow>
       create_chd_composite df var_type = Inr (nan_series df)"
    using create_chd_composite_all_absent [OF wf, of var_type a b c] by blast
  have 5: "map_of (columns df) ''bmi'' = None \<longrightarrow> define_obesity df = replicate (nrows df) (Some 0)"
    by (simp add: define_obesity_absent)
  have 6: "map_of (columns df) ''tchol'' = None \<and> map_of (columns df) ''ldl_calc'' = None \<longrightarrow>
       define_hyperlipidemia df = replicate (nrows df) (Some 0)"
    by (simp add: define_hyperlipidemia_absent)
  have 7: "map_of (columns df) ''hba1c'' = None \<and> map_of (columns df) ''glucose'' = None \<and>
     map_of (columns df) ''insulin_use'' = None \<and> map_of (columns df) ''oral_dm_med'' = None \<and>
     map_of (columns df) ''diabetes_told'' = None \<longrightarrow>
       define_diabetes df = replicate (nrows df) (Some 0)"
    by (simp add: define_diabetes_absent)
  have 8: "filter (\<lambda>c. take 3 c = ''sbp'') (map fst (columns df)) = [] \<and>
     filter (\<lambda>c. take 3 c = ''dbp'') (map fst (columns df)) = [] \<and>
     map_of (columns df) ''bp_med'' = None \<longrightarrow>
       define_hypertension df = replicate (nrows df) (Some 0)"
    by (simp add: define_hypertension_absent)
  show ?thesis
    by (intro conjI 1 2 3 4 5 6 7 8 risk_factors_not_nan)
qed

theorem derived_variables_absent_column_witness:
  "calculate_ldl no_columns = [None, None] \<and> define_smoking_status no_columns = [None, None] \<and>
   create_chd_composite no_columns ''continuous'' = Inr [None, None] \<and>
   define_obesity no_columns = [Some 0, Some 0] \<and> define_hyperlipidemia no_columns = [Some 0, Some 0] \<and>
   define_diabetes no_columns = [Some 0, Some 0] \<and> define_hypertension no_columns = [Some 0, Some 0]"
proof -
  have wf: "wf_df no_columns" by (simp add: wf_df_def no_columns_def)
  have c: "map_of CHD_VARS ''continuous'' = Some (''MCQ160C'', ''MCQ160D'', ''MCQ160E'')"
    by (simp add: CHD_VARS_def)
  have n: "columns no_columns = []" "nrows no_columns = 2" "nan_series no_columns = [None, None]"
    by (simp_all add: no_columns_def nan_series_def numeral_2_eq_2)
  show ?thesis
    using derived_variables_absent_column [OF wf, of "''continuous''" "''MCQ160C''" "''MCQ160D''" "''MCQ160E''" 0] c
    by (simp add: n numeral_2_eq_2)
qed

section \<open>The reference population\<close>

text \<open>
  Claim C3 says that the weights of \<^verbatim>\<open>US_STD_2000\<close> over the seven age groups sum to
  exactly 1. They do not.
\<close>

theorem US_STD_2000_sum_counterexample: "sum_list (map snd US_STD_2000) \<noteq> 1"
  by (simp add: US_STD_2000_def)

text \<open>
  Claim C3, as the code has it. The table holds the seven age groups 20-29, .., 80+, in
  this order, with positive weights that sum to 0.6279. The table is not normalised;
  \<^verbatim>\<open>age_standardize\<close> divides by the sum of the weights it has used.
\<close>

theorem US_STD_2000_sum:
  "map fst US_STD_2000 = [''20-29'', ''30-39'', ''40-49'', ''50-59'', ''60-69'', ''70-79'', ''80+''] \<and>
   sum_list (map snd US_STD_2000) = 0.6279 \<and> list_all (\<lambda>bw. 0 < snd bw) US_STD_2000"
  by (simp add: US_STD_2000_def)

section \<open>The estimator\<close>

lemma estimate_empty:
  "dropna df outcome weight = [] \<Longrightarrow>
   calculate_survey_weighted_prevalence df outcome weight =
     \<lparr>est_prevalence = NaN, est_se = NaN, est_ci_low = NaN, est_ci_high = NaN, est_n = 0,
      est_n_cases = None\<rparr>"
  by (simp add: calculate_survey_weighted_prevalence_def)

lemma estimate_nonempty:
  assumes "dropna df outcome weight \<noteq> []"
  shows "est_prevalence (calculate_survey_weighted_prevalence df outcome weight) =
           fdiv (Fin (sum_list (map (\<lambda>yw. fst yw * snd yw) (dropna df outcome weight))))
                (Fin (sum_list (map snd (dropna df outcome weight))))"
    and "est_n (calculate_survey_weighted_prevalence df outcome weight) =
           length (dropna df outcome weight)"
    and "est_n_cases (calculate_survey_weighted_prevalence df outcome weight) =
           Some (py_int (sum_list (map fst (dropna df outcome weight))))"
  using assms by (simp_all add: calculate_survey_weighted_prevalence_def Let_def)

text \<open>
  Claim C6. When no record is left after \<^verbatim>\<open>dropna\<close>, the estimator returns (it has no
  raising branch) a result with sample size 0 whose point estimate, standard error and
  confidence bounds are NaN. The claim also wants the unweighted case count to be NaN
  there: the returned dictionary has no key \<^verbatim>\<open>n_cases\<close> on this path, so the callers'
  \<^verbatim>\<open>prev['n_cases']\<close> raises \<^verbatim>\<open>KeyError\<close>. When records are left, the case count
  \<^verbatim>\<open>int(valid[outcome].sum())\<close> is returned with the prevalence.
\<close>

theorem estimator_empty_result:
  "(dropna df outcome weight = [] \<longrightarrow>
      calculate_survey_weighted_prevalence df outcome weight =
        \<lparr>est_prevalence = NaN, est_se = NaN, est_ci_low = NaN, est_ci_high = NaN, est_n = 0,
         est_n_cases = None\<rparr> \<and>
      getitem_n_cases (calculate_survey_weighted_prevalence df outcome weight) = Inl KeyError) \<and>
   (dropna df outcome weight \<noteq> [] \<longrightarrow>
      est_n_cases (calculate_survey_weighted_prevalence df outcome weight) =
        Some (py_int (sum_list (map fst (dropna df outcome weight)))) \<and>
      getitem_n_cases (calculate_survey_weighted_prevalence df outcome weight) =
        Inr (py_int (sum_list (map fst (dropna df outcome weight)))))"
  by (simp add: estimate_empty estimate_nonempty getitem_n_cases_def)

theorem estimator_empty_result_witness:
  "est_n_cases (calculate_survey_weighted_prevalence all_invalid_example fst snd) = None \<and>
   est_n (calculate_survey_weighted_prevalence all_invalid_example fst snd) = 0 \<and>
   est_prevalence (calculate_survey_weighted_prevalence all_invalid_example fst snd) = NaN \<and>
   getitem_n_cases (calculate_survey_weighted_prevalence all_invalid_example fst snd) = Inl KeyError \<and>
   getitem_n_cases (calculate_survey_weighted_prevalence ([] :: (cell \<times> cell) list) fst snd) = Inl KeyError \<and>
   getitem_n_cases (calculate_survey_weighted_prevalence zero_weight_example fst snd) = Inr 1"
proof -
  have a: "dropna all_invalid_example fst snd = []" "dropna ([] :: (cell \<times> cell) list) fst snd = []"
    by (simp_all add: dropna_def all_invalid_example_def List.map_filter_simps)
  have z: "dropna zero_weight_example fst snd = [(1, 1), (0, 1), (0, 0)]"
    by (simp add: dropna_def zero_weight_example_def List.map_filter_simps)
  show ?thesis
    using estimator_empty_result [of all_invalid_example fst snd]
      estimator_empty_result [of "[] :: (cell \<times> cell) list" fst snd]
      estimator_empty_result [of zero_weight_example fst snd]
    by (simp add: a z py_int_def getitem_n_cases_def)
qed

lemma spec_filtered_dropna:
  "spec_filtered df outcome weight = filter (\<lambda>yw. 0 < snd yw) (dropna df outcome weight)"
  by (induction df) (auto simp: spec_filtered_def dropna_def List.map_filter_simps split: option.splits)

lemma sum_filter_positive_weight:
  "\<forall>yw \<in> set xs. 0 \<le> snd yw \<Longrightarrow>
   sum_list (map (\<lambda>yw. fst yw * snd yw) (filter (\<lambda>yw. 0 < snd yw) xs)) =
     sum_list (map (\<lambda>yw. fst yw * snd yw) xs) \<and>
   sum_list (map snd (filter (\<lambda>yw. 0 < snd yw) xs)) = sum_list (map snd (xs :: (real \<times> real) list))"
  by (induction xs) (auto simp: order_le_less)

lemma filter_all_positive:
  "\<forall>yw \<in> set xs. 0 < snd yw \<Longrightarrow> filter (\<lambda>yw. 0 < snd yw) xs = (xs :: (real \<times> real) list)"
  by (induction xs) auto

lemma dropna_set:
  "(y, w) \<in> set (dropna df outcome weight) \<longleftrightarrow> (\<exists>r \<in> set df. outcome r = Some y \<and> weight r = Some w)"
  by (induction df) (auto simp: dropna_def List.map_filter_simps split: option.splits)

lemma apply_exclusions_rows:
  "r \<in> set (apply_exclusions df) \<Longrightarrow>
   (\<exists>y w a. chd_composite r = Some y \<and> WTMEC2YR r = Some w \<and> 0 < w \<and> RIDAGEYR r = Some a \<and> 20 \<le> a)"
  by (auto simp: apply_exclusions_def Let_def split: option.splits)

lemma dropna_apply_exclusions_positive:
  "\<forall>yw \<in> set (dropna (apply_exclusions df) chd_composite WTMEC2YR). 0 < snd yw"
  by (auto simp: dropna_set dest!: apply_exclusions_rows)

text \<open>
  Claim C2 says that the estimator keeps the records with a present outcome and a
  strictly positive weight, so that a record of weight zero does not count in \<open>n\<close>. The
  estimator only drops missing values: of the four records below, one has a missing
  outcome and one has weight zero; the estimator counts 3, the claim's rule keeps 2.
\<close>

theorem estimator_filter_counterexample:
  "est_n (calculate_survey_weighted_prevalence zero_weight_example fst snd) = 3 \<and>
   length (spec_filtered zero_weight_example fst snd) = 2"
  by (simp add: calculate_survey_weighted_prevalence_def Let_def dropna_def spec_filtered_def
      zero_weight_example_def List.map_filter_simps)

text \<open>
  Claim C2, as the code has it. The estimator keeps the records whose outcome and weight
  are both present (\<^verbatim>\<open>dropna\<close>); it does not test the sign of the weight. When records are
  left, its point estimate is (sum of outcome times weight) / (sum of weight) over exactly
  these records and \<open>n\<close> is their number. A record of weight zero adds nothing to either
  sum, so with no negative weight both sums are those over the records of strictly
  positive weight; but it counts in \<open>n\<close>. When every kept weight is strictly positive,
  the kept records are those of the claim; this is so for the CHD outcome on every data
  set that went through the exclusions of \<^verbatim>\<open>main\<close>, which drops the weights that are
  not above zero before the analyses run.
\<close>

theorem estimator_filter_and_point_estimate:
  "(dropna df outcome weight \<noteq> [] \<longrightarrow>
      est_prevalence (calculate_survey_weighted_prevalence df outcome weight) =
        fdiv (Fin (sum_list (map (\<lambda>yw. fst yw * snd yw) (dropna df outcome weight))))
             (Fin (sum_list (map snd (dropna df outcome weight)))) \<and>
      est_n (calculate_survey_weighted_prevalence df outcome weight) =
        length (dropna df outcome weight)) \<and>
   ((\<forall>yw \<in> set (dropna df outcome weight). 0 \<le> snd yw) \<longrightarrow>
      sum_list (map (\<lambda>yw. fst yw * snd yw) (spec_filtered df outcome weight)) =
        sum_list (map (\<lambda>yw. fst yw * snd yw) (dropna df outcome weight)) \<and>
      sum_list (map snd (spec_filtered df outcome weight)) =
        sum_list (map snd (dropna df outcome weight))) \<and>
   ((\<forall>yw \<in> set (dropna df outcome weight). 0 < snd yw) \<longrightarrow>
      dropna df outcome weight = spec_filtered df outcome weight) \<and>
   dropna (apply_exclusions pdf) chd_composite WTMEC2YR =
     spec_filtered (apply_exclusions pdf) chd_composite WTMEC2YR"
proof (intro conjI impI)
  assume "\<forall>yw \<in> set (dropna df outcome weight). 0 \<le> snd yw"
  from sum_filter_positive_weight [OF this]
  show "sum_list (map (\<lambda>yw. fst yw * snd yw) (spec_filtered df outcome weight)) =
        sum_list (map (\<lambda>yw. fst yw * snd yw) (dropna df outcome weight))"
    and "sum_list (map snd (spec_filtered df outcome weight)) =
        sum_list (map snd (dropna df outcome weight))"
    by (simp_all add: spec_filtered_dropna)
next
  assume "\<forall>yw \<in> set (dropna df outcome weight). 0 < snd yw"
  then show "dropna df outcome weight = spec_filtered df outcome weight"
    by (simp add: spec_filtered_dropna filter_all_positive)
next
  show "dropna (apply_exclusions pdf) chd_composite WTMEC2YR =
     spec_filtered (apply_exclusions pdf) chd_composite WTMEC2YR"
    using dropna_apply_exclusions_positive [of pdf]
    by (simp add: spec_filtered_dropna filter_all_positive)
qed (simp_all add: estimate_nonempty)

theorem estimator_filter_and_point_estimate_witness:
  "est_prevalence (calculate_survey_weighted_prevalence zero_weight_example fst snd) = Fin (1 / 2) \<and>
   est_n (calculate_survey_weighted_prevalence zero_weight_example fst snd) = 3 \<and>
   dropna (apply_exclusions excluded_example) chd_composite WTMEC2YR = [(1, 2), (0, 6)] \<and>
   spec_filtered (apply_exclusions excluded_example) chd_composite WTMEC2YR = [(1, 2), (0, 6)] \<and>
   est_prevalence (calculate_survey_weighted_prevalence (apply_exclusions excluded_example)
     chd_composite WTMEC2YR) = Fin (1 / 4)"
proof -
  have z: "dropna zero_weight_example fst snd = [(1, 1), (0, 1), (0, 0)]"
    by (simp add: dropna_def zero_weight_example_def List.map_filter_simps)
  have e: "apply_exclusions excluded_example =
     [\<lparr>era = ''Era2_1999-2006'', RIDAGEYR = Some 45, RIAGENDR = Some 1, RIDRETH1 = Some 3,
       chd_composite = Some 1, WTMEC2YR = Some 2\<rparr>,
      \<lparr>era = ''Era2_1999-2006'', RIDAGEYR = Some 33, RIAGENDR = Some 1, RIDRETH1 = Some 1,
       chd_composite = Some 0, WTMEC2YR = Some 6\<rparr>]"
    by (simp add: apply_exclusions_def excluded_example_def)
  have d: "dropna (apply_exclusions excluded_example) chd_composite WTMEC2YR = [(1, 2), (0, 6)]"
    by (simp add: e dropna_def List.map_filter_simps)
  show ?thesis
    using estimator_filter_and_point_estimate [of zero_weight_example fst snd excluded_example]
      estimator_filter_and_point_estimate [of "apply_exclusions excluded_example" chd_composite
        WTMEC2YR excluded_example]
    by (simp add: z d)
qed

lemma binary_weighted_sum_bounds:
  "\<forall>yw \<in> set xs. (fst yw = 0 \<or> fst yw = 1) \<and> 0 < snd yw \<Longrightarrow>
   0 \<le> sum_list (map (\<lambda>yw. fst yw * snd yw) xs) \<and>
   sum_list (map (\<lambda>yw. fst yw * snd yw) xs) \<le> sum_list (map snd (xs :: (real \<times> real) list))"
  by (induction xs) auto

lemma positive_weight_sum:
  "xs \<noteq> [] \<Longrightarrow> \<forall>yw \<in> set xs. 0 < snd yw \<Longrightarrow> 0 < sum_list (map snd (xs :: (real \<times> real) list))"
proof (induction xs)
  case Nil
  then show ?case by simp
next
  case (Cons x xs)
  have "0 \<le> sum_list (map snd xs)"
    using Cons.prems(2) by (intro sum_list_nonneg) (fastforce intro: less_imp_le)
  moreover have "0 < snd x" using Cons.prems(2) by simp
  ultimately show ?case by simp
qed

lemma estimate_fields:
  assumes "dropna df outcome weight \<noteq> []"
  shows "est_se (calculate_survey_weighted_prevalence df outcome weight) =
           fsqrt (fdiv (fmul (est_prevalence (calculate_survey_weighted_prevalence df outcome weight))
                    (fsub (Fin 1) (est_prevalence (calculate_survey_weighted_prevalence df outcome weight))))
                  (Fin (real (length (dropna df outcome weight)))))"
    and "est_ci_low (calculate_survey_weighted_prevalence df outcome weight) =
           py_max (Fin 0) (fsub (est_prevalence (calculate_survey_weighted_prevalence df outcome weight))
             (fmul (Fin 1.96) (est_se (calculate_survey_weighted_prevalence df outcome weight))))"
    and "est_ci_high (calculate_survey_weighted_prevalence df outcome weight) =
           py_min (Fin 1) (fadd (est_prevalence (calculate_survey_weighted_prevalence df outcome weight))
             (fmul (Fin 1.96) (est_se (calculate_survey_weighted_prevalence df outcome weight))))"
  using assms by (simp_all add: calculate_survey_weighted_prevalence_def Let_def)

lemma estimate_finite:
  assumes ne: "dropna df outcome weight \<noteq> []"
    and W: "sum_list (map snd (dropna df outcome weight)) \<noteq> 0"
    and p: "p = sum_list (map (\<lambda>yw. fst yw * snd yw) (dropna df outcome weight)) /
                sum_list (map snd (dropna df outcome weight))"
    and p01: "0 \<le> p" "p \<le> 1"
    and s: "s = sqrt (p * (1 - p) / real (length (dropna df outcome weight)))"
  shows "est_prevalence (calculate_survey_weighted_prevalence df outcome weight) = Fin p"
    and "est_se (calculate_survey_weighted_prevalence df outcome weight) = Fin s"
    and "est_ci_low (calculate_survey_weighted_prevalence df outcome weight) = Fin (max 0 (p - 1.96 * s))"
    and "est_ci_high (calculate_survey_weighted_prevalence df outcome weight) = Fin (min 1 (p + 1.96 * s))"
proof -
  have nn: "\<not> p * (1 - p) / real (length (dropna df outcome weight)) < 0"
    using p01 by (simp add: divide_nonneg_nonneg not_less)
  have len: "real (length (dropna df outcome weight)) \<noteq> 0" using ne by simp
  show P: "est_prevalence (calculate_survey_weighted_prevalence df outcome weight) = Fin p"
    using ne W p by (simp add: estimate_nonempty)
  show S: "est_se (calculate_survey_weighted_prevalence df outcome weight) = Fin s"
    unfolding estimate_fields(1) [OF ne] P using nn len s
    by (simp add: fsub_def del: of_nat_eq_0_iff)
  show "est_ci_low (calculate_survey_weighted_prevalence df outcome weight) = Fin (max 0 (p - 1.96 * s))"
    unfolding estimate_fields(2) [OF ne] P S
    by (simp add: fsub_def py_max_def max_def)
  show "est_ci_high (calculate_survey_weighted_prevalence df outcome weight) = Fin (min 1 (p + 1.96 * s))"
    unfolding estimate_fields(3) [OF ne] P S
    by (simp add: py_min_def min_def)
qed

text \<open>
  Claim C10. When the records the estimator keeps are not empty, their outcomes are all 0
  or 1 and their weights are all strictly positive, the returned values are finite and
  ordered: 0 \<le> ci_low \<le> prevalence \<le> ci_high \<le> 1.
\<close>

theorem estimator_bounds:
  assumes ne: "dropna df outcome weight \<noteq> []"
    and bin: "\<forall>yw \<in> set (dropna df outcome weight). (fst yw = 0 \<or> fst yw = 1) \<and> 0 < snd yw"
  shows "\<exists>lo p hi.
     est_ci_low (calculate_survey_weighted_prevalence df outcome weight) = Fin lo \<and>
     est_prevalence (calculate_survey_weighted_prevalence df outcome weight) = Fin p \<and>
     est_ci_high (calculate_survey_weighted_prevalence df outcome weight) = Fin hi \<and>
     0 \<le> lo \<and> lo \<le> p \<and> p \<le> hi \<and> hi \<le> 1"
proof -
  define S where "S = sum_list (map (\<lambda>yw. fst yw * snd yw) (dropna df outcome weight))"
  define W where "W = sum_list (map snd (dropna df outcome weight))"
  define p where "p = S / W"
  define s where "s = sqrt (p * (1 - p) / real (length (dropna df outcome weight)))"
  have Wpos: "0 < W"
    unfolding W_def using ne bin by (intro positive_weight_sum) auto
  have SW: "0 \<le> S" "S \<le> W"
    unfolding S_def W_def using binary_weighted_sum_bounds [OF bin] by simp_all
  have p01: "0 \<le> p" "p \<le> 1"
    unfolding p_def using SW Wpos by simp_all
  have s0: "0 \<le> s"
    unfolding s_def using p01 by (simp add: divide_nonneg_nonneg)
  have W0: "sum_list (map snd (dropna df outcome weight)) \<noteq> 0"
    using Wpos by (simp add: W_def)
  have pdef: "p = sum_list (map (\<lambda>yw. fst yw * snd yw) (dropna df outcome weight)) /
                sum_list (map snd (dropna df outcome weight))"
    by (simp add: p_def S_def W_def)
  note f = estimate_finite [OF ne W0 pdef p01 s_def]
  have "0 \<le> max 0 (p - 1.96 * s)" "max 0 (p - 1.96 * s) \<le> p"
    "p \<le> min 1 (p + 1.96 * s)" "min 1 (p + 1.96 * s) \<le> 1"
    using p01 s0 by simp_all
  with f show ?thesis by blast
qed

theorem estimator_bounds_witness:
  "\<exists>lo hi.
     est_ci_low (calculate_survey_weighted_prevalence binary_example fst snd) = Fin lo \<and>
     est_prevalence (calculate_survey_weighted_prevalence binary_example fst snd) = Fin (3 / 8) \<and>
     est_ci_high (calculate_survey_weighted_prevalence binary_example fst snd) = Fin hi \<and>
     0 \<le> lo \<and> lo \<le> 3 / 8 \<and> 3 / 8 \<le> hi \<and> hi \<le> 1"
proof -
  have d: "dropna binary_example fst snd = [(1, 3), (0, 1), (0, 4)]"
    by (simp add: dropna_def binary_example_def List.map_filter_simps)
  have p: "est_prevalence (calculate_survey_weighted_prevalence binary_example fst snd) = Fin (3 / 8)"
    by (simp add: estimate_nonempty d)
  have "\<forall>yw \<in> set (dropna binary_example fst snd). (fst yw = 0 \<or> fst yw = 1) \<and> 0 < snd yw"
    by (simp add: d)
  moreover have "dropna binary_example fst snd \<noteq> []" by (simp add: d)
  ultimately obtain lo q hi where
    r: "est_ci_low (calculate_survey_weighted_prevalence binary_example fst snd) = Fin lo"
      "est_prevalence (calculate_survey_weighted_prevalence binary_example fst snd) = Fin q"
      "est_ci_high (calculate_survey_weighted_prevalence binary_example fst snd) = Fin hi"
      "0 \<le> lo" "lo \<le> q" "q \<le> hi" "hi \<le> 1"
    using estimator_bounds [of binary_example fst snd] by blast
  from r(2) p have "q = 3 / 8" by simp
  with r p show ?thesis by blast
qed

section \<open>Age standardisation\<close>

lemma map_of_fin_prevalences: "map_of (fin_prevalences ps) b = map_option Fin (map_of ps b)"
  by (simp add: fin_prevalences_def map_of_map)

lemma age_standardize_loop_fin:
  "age_standardize_loop tbl (fin_prevalences ps) (Fin s, t) =
     (Fin (s + sum_list (map (\<lambda>bw. case map_of ps (fst bw) of None \<Rightarrow> 0 | Some x \<Rightarrow> x * snd bw) tbl)),
      t + sum_list (map (\<lambda>bw. case map_of ps (fst bw) of None \<Rightarrow> 0 | Some x \<Rightarrow> snd bw) tbl))"
  by (induction tbl arbitrary: s t)
     (auto simp: map_of_fin_prevalences split: option.splits)

lemma used_weight_bounds:
  assumes "\<forall>bw \<in> set tbl. 0 < snd bw"
  shows "0 \<le> sum_list (map (\<lambda>bw. case map_of ps (fst bw) of None \<Rightarrow> 0 | Some x \<Rightarrow> snd bw) tbl)"
    and "sum_list (map (\<lambda>bw. case map_of ps (fst bw) of None \<Rightarrow> 0 | Some x \<Rightarrow> snd bw) tbl)
          \<le> sum_list (map snd (tbl :: (string \<times> real) list))"
    and "sum_list (map (\<lambda>bw. case map_of ps (fst bw) of None \<Rightarrow> 0 | Some x \<Rightarrow> snd bw) tbl) = 0
          \<longleftrightarrow> (\<forall>b \<in> set (map fst tbl). map_of (ps :: (string \<times> real) list) b = None)"
proof -
  let ?f = "\<lambda>bw :: string \<times> real. case map_of ps (fst bw) of None \<Rightarrow> 0 | Some x \<Rightarrow> snd bw"
  have nn: "\<And>t. \<forall>bw \<in> set t. 0 < snd bw \<Longrightarrow> 0 \<le> sum_list (map ?f t)"
    by (intro sum_list_nonneg) (auto split: option.splits intro: less_imp_le)
  show "0 \<le> sum_list (map ?f tbl)" using assms by (rule nn)
  show "sum_list (map ?f tbl) \<le> sum_list (map snd tbl)"
    using assms by (intro sum_list_mono) (auto split: option.splits intro: less_imp_le)
  show "sum_list (map ?f tbl) = 0 \<longleftrightarrow> (\<forall>b \<in> set (map fst tbl). map_of ps b = None)"
    using assms
  proof (induction tbl)
    case Nil
    then show ?case by simp
  next
    case (Cons a tbl)
    have r: "0 \<le> sum_list (map ?f tbl)" using Cons.prems by (intro nn) simp
    have a: "0 < snd a" using Cons.prems by simp
    show ?case
    proof (cases "map_of ps (fst a)")
      case None
      then show ?thesis using Cons by simp
    next
      case (Some x)
      then show ?thesis using r a by (auto simp: add_nonneg_eq_0_iff less_imp_le)
    qed
  qed
qed

lemma spec_weighted_sum_absent:
  "\<forall>b \<in> set (map fst US_STD_2000). map_of ps b = None \<Longrightarrow> spec_weighted_sum ps = 0"
  by (simp add: spec_weighted_sum_def US_STD_2000_def)

text \<open>
  Claim C5 says that on an empty input mapping the standardised rate is the undefined
  sentinel. \<^verbatim>\<open>age_standardize\<close> returns the number 0 there.
\<close>

theorem age_standardize_empty_counterexample:
  "age_standardize [] = Fin 0 \<and> age_standardize [] \<noteq> NaN"
  by (simp add: age_standardize_def US_STD_2000_def)

text \<open>
  Claim C5, as the code has it. On a mapping of finite prevalences in which an age group
  of the reference table is present, \<^verbatim>\<open>age_standardize\<close> returns the sum over the
  present groups of prevalence times reference weight, divided by the sum of the
  reference weights of the present groups; this partial sum is always below 1, the whole
  table summing to 0.6279. On the empty mapping (and when no group of the table is
  present) \<^verbatim>\<open>age_standardize\<close> itself returns 0; the undefined sentinel NaN comes from
  its caller \<^verbatim>\<open>analyze_prevalence_by_era\<close>, which does not call it on an empty mapping.
\<close>

theorem age_standardize_weighted_mean:
  "age_standardize (fin_prevalences ps) =
     (if \<forall>b \<in> set (map fst US_STD_2000). map_of ps b = None then Fin 0
      else Fin (spec_weighted_sum ps / spec_used_weight ps)) \<and>
   0 \<le> spec_used_weight ps \<and> spec_used_weight ps < 1 \<and>
   (spec_used_weight ps = 0 \<longleftrightarrow> (\<forall>b \<in> set (map fst US_STD_2000). map_of ps b = None)) \<and>
   age_standardize [] = Fin 0 \<and> age_std_prev_of [] = NaN \<and>
   (age_prev \<noteq> [] \<longrightarrow> age_std_prev_of age_prev = age_standardize age_prev)"
proof -
  have pos: "\<forall>bw \<in> set US_STD_2000. 0 < snd bw" by (simp add: US_STD_2000_def)
  note b = used_weight_bounds [OF pos, of ps]
  have W0: "0 \<le> spec_used_weight ps" using b(1) by (simp add: spec_used_weight_def)
  have "spec_used_weight ps \<le> sum_list (map snd US_STD_2000)"
    using b(2) by (simp add: spec_used_weight_def)
  also have "\<dots> < 1" by (simp add: US_STD_2000_def)
  finally have W1: "spec_used_weight ps < 1" .
  have Wz: "spec_used_weight ps = 0 \<longleftrightarrow> (\<forall>b \<in> set (map fst US_STD_2000). map_of ps b = None)"
    using b(3) by (simp add: spec_used_weight_def)
  have loop: "age_standardize_loop US_STD_2000 (fin_prevalences ps) (Fin 0, 0) =
      (Fin (spec_weighted_sum ps), spec_used_weight ps)"
    by (simp add: age_standardize_loop_fin spec_weighted_sum_def spec_used_weight_def)
  have main: "age_standardize (fin_prevalences ps) =
     (if \<forall>b \<in> set (map fst US_STD_2000). map_of ps b = None then Fin 0
      else Fin (spec_weighted_sum ps / spec_used_weight ps))"
  proof (cases "\<forall>b \<in> set (map fst US_STD_2000). map_of ps b = None")
    case True
    then have "spec_used_weight ps = 0" "spec_weighted_sum ps = 0"
      using Wz spec_weighted_sum_absent by simp_all
    then have "age_standardize (fin_prevalences ps) = Fin 0"
      by (simp add: age_standardize_def loop)
    then show ?thesis unfolding if_P [OF True] .
  next
    case False
    then have "0 < spec_used_weight ps" using Wz W0 by (simp add: order_less_le)
    then have "age_standardize (fin_prevalences ps) = Fin (spec_weighted_sum ps / spec_used_weight ps)"
      using W1 by (simp add: age_standardize_def loop)
    then show ?thesis unfolding if_not_P [OF False] .
  qed
  have e: "age_standardize [] = Fin 0" by (simp add: age_standardize_def US_STD_2000_def)
  show ?thesis using main W0 W1 Wz e by (simp add: age_std_prev_of_def)
qed

theorem age_standardize_weighted_mean_witness:
  "age_standardize [(''20-29'', Fin 0.05), (''30-39'', Fin 0.07)] =
     Fin ((0.05 * 0.1318 + 0.07 * 0.1342) / (0.1318 + 0.1342)) \<and>
   age_std_prev_of [] = NaN \<and> age_standardize [] = Fin 0 \<and>
   age_std_prev_of [(''80+'', Fin 0.2)] = Fin 0.2"
proof -
  have f: "fin_prevalences [(''20-29'', 0.05), (''30-39'', 0.07)] = [(''20-29'', Fin 0.05), (''30-39'', Fin 0.07)]"
    "fin_prevalences [(''80+'', 0.2)] = [(''80+'', Fin 0.2)]"
    by (simp_all add: fin_prevalences_def)
  show ?thesis
    using age_standardize_weighted_mean [of "[(''20-29'', 0.05), (''30-39'', 0.07)]" "[(''80+'', Fin 0.2)]",
        unfolded f]
      age_standardize_weighted_mean [of "[(''80+'', 0.2)]" "[(''80+'', Fin 0.2)]", unfolded f]
    by (simp add: spec_weighted_sum_def spec_used_weight_def US_STD_2000_def)
qed

section \<open>The analyses by era and by subgroup\<close>

lemma update_fresh: "k \<notin> fst ` set al \<Longrightarrow> AList.update k v al = al @ [(k, v)]"
  by (induction al) auto

lemma age_prev_loop_append:
  "distinct ags \<Longrightarrow> set ags \<inter> fst ` set age_prev = {} \<Longrightarrow>
   age_prev_loop ags era_df age_prev =
     age_prev @
     map (\<lambda>ag. (ag, est_prevalence
            (calculate_survey_weighted_prevalence (age_group_rows era_df ag) chd_composite WTMEC2YR)))
       (filter (\<lambda>ag. 30 < length (age_group_rows era_df ag)) ags)"
proof (induction ags arbitrary: age_prev)
  case Nil
  then show ?case by simp
next
  case (Cons ag ags)
  show ?case
  proof (cases "30 < length (age_group_rows era_df ag)")
    case True
    let ?v = "est_prevalence
            (calculate_survey_weighted_prevalence (age_group_rows era_df ag) chd_composite WTMEC2YR)"
    have fresh: "ag \<notin> fst ` set age_prev" using Cons.prems by auto
    have "set ags \<inter> fst ` set (age_prev @ [(ag, ?v)]) = {}"
      using Cons.prems by auto
    moreover have "distinct ags" using Cons.prems by simp
    ultimately show ?thesis
      using Cons.IH [of "age_prev @ [(ag, ?v)]"] True by (simp add: Let_def update_fresh [OF fresh])
  next
    case False
    have "set ags \<inter> fst ` set age_prev = {}" "distinct ags" using Cons.prems by auto
    then show ?thesis using Cons.IH [of age_prev] False by (simp add: Let_def)
  qed
qed

lemma valid_rows_estimate:
  assumes "rows \<noteq> []" and "\<forall>r \<in> set rows. chd_composite r \<noteq> None \<and> WTMEC2YR r \<noteq> None"
  shows "\<exists>c. getitem_n_cases (calculate_survey_weighted_prevalence rows chd_composite WTMEC2YR) = Inr c"
proof -
  obtain r rs where rows: "rows = r # rs" using assms(1) by (cases rows) auto
  then obtain y w where "chd_composite r = Some y" "WTMEC2YR r = Some w" using assms(2) by auto
  then have "dropna rows chd_composite WTMEC2YR \<noteq> []"
    by (simp add: rows dropna_def List.map_filter_simps)
  then show ?thesis by (simp add: estimate_nonempty getitem_n_cases_def)
qed

lemma subgroup_loop_cells:
  assumes "\<forall>r \<in> set era_df. chd_composite r \<noteq> None \<and> WTMEC2YR r \<noteq> None"
  shows "\<exists>out. subgroup_loop labels e era_df subgroup_var results = Inr out \<and>
     map (\<lambda>r. (sub_era r, sub_subgroup r, sub_n_total r)) out =
       map (\<lambda>r. (sub_era r, sub_subgroup r, sub_n_total r)) results @
       map (\<lambda>vl. (e, snd vl, length (subgroup_rows era_df subgroup_var (fst vl))))
         (filter (\<lambda>vl. 50 < length (subgroup_rows era_df subgroup_var (fst vl))) labels)"
proof (induction labels arbitrary: results)
  case Nil
  then show ?case by simp
next
  case (Cons vl labels)
  obtain v l where vl: "vl = (v, l)" by (cases vl)
  show ?case
  proof (cases "50 < length (subgroup_rows era_df subgroup_var v)")
    case True
    then have ne: "subgroup_rows era_df subgroup_var v \<noteq> []" by auto
    have "\<forall>r \<in> set (subgroup_rows era_df subgroup_var v). chd_composite r \<noteq> None \<and> WTMEC2YR r \<noteq> None"
      using assms by (simp add: subgroup_rows_def)
    from valid_rows_estimate [OF ne this] obtain c where
      c: "getitem_n_cases (calculate_survey_weighted_prevalence (subgroup_rows era_df subgroup_var v)
            chd_composite WTMEC2YR) = Inr c" ..
    show ?thesis
      using Cons.IH [of "results @ [\<lparr>sub_era = e, sub_subgroup = l,
          sub_n_total = length (subgroup_rows era_df subgroup_var v), sub_n_chd = c,
          sub_prevalence = est_prevalence (calculate_survey_weighted_prevalence
            (subgroup_rows era_df subgroup_var v) chd_composite WTMEC2YR),
          sub_ci_low = est_ci_low (calculate_survey_weighted_prevalence
            (subgroup_rows era_df subgroup_var v) chd_composite WTMEC2YR),
          sub_ci_high = est_ci_high (calculate_survey_weighted_prevalence
            (subgroup_rows era_df subgroup_var v) chd_composite WTMEC2YR)\<rparr>]"] True c
      by (simp add: vl Let_def)
  next
    case False
    then show ?thesis using Cons.IH [of results] by (simp add: vl Let_def)
  qed
qed

lemma subgroup_era_loop_cells:
  assumes "\<forall>r \<in> set df. chd_composite r \<noteq> None \<and> WTMEC2YR r \<noteq> None"
  shows "\<exists>out. subgroup_era_loop es df subgroup_var labels results = Inr out \<and>
     map (\<lambda>r. (sub_era r, sub_subgroup r, sub_n_total r)) out =
       map (\<lambda>r. (sub_era r, sub_subgroup r, sub_n_total r)) results @
       concat (map (\<lambda>e. map (\<lambda>vl. (e, snd vl, length (subgroup_rows (era_rows df e) subgroup_var (fst vl))))
         (filter (\<lambda>vl. 50 < length (subgroup_rows (era_rows df e) subgroup_var (fst vl))) labels)) es)"
proof (induction es arbitrary: results)
  case Nil
  then show ?case by simp
next
  case (Cons e es)
  have "\<forall>r \<in> set (era_rows df e). chd_composite r \<noteq> None \<and> WTMEC2YR r \<noteq> None"
    using assms by (simp add: era_rows_def)
  from subgroup_loop_cells [OF this, of labels e subgroup_var results]
  obtain mid where mid: "subgroup_loop labels e (era_rows df e) subgroup_var results = Inr mid"
    "map (\<lambda>r. (sub_era r, sub_subgroup r, sub_n_total r)) mid =
       map (\<lambda>r. (sub_era r, sub_subgroup r, sub_n_total r)) results @
       map (\<lambda>vl. (e, snd vl, length (subgroup_rows (era_rows df e) subgroup_var (fst vl))))
         (filter (\<lambda>vl. 50 < length (subgroup_rows (era_rows df e) subgroup_var (fst vl))) labels)"
    by blast
  show ?case using Cons.IH [of mid] mid by (simp add: Let_def)
qed

lemma era_step_valid:
  assumes "\<forall>r \<in> set df. chd_composite r \<noteq> None \<and> WTMEC2YR r \<noteq> None" and "e \<in> set (map era df)"
  shows "\<exists>row. era_step df e = Inr row \<and> res_era row = e \<and> res_n_total row = length (era_rows df e) \<and>
     res_age_std_prevalence row = age_std_prev_of (age_prev_loop (map fst US_STD_2000) (era_rows df e) [])"
proof -
  have ne: "era_rows df e \<noteq> []" using assms(2) by (auto simp: era_rows_def filter_empty_conv)
  have "\<forall>r \<in> set (era_rows df e). chd_composite r \<noteq> None \<and> WTMEC2YR r \<noteq> None"
    using assms(1) by (simp add: era_rows_def)
  from valid_rows_estimate [OF ne this] obtain c where
    "getitem_n_cases (calculate_survey_weighted_prevalence (era_rows df e) chd_composite WTMEC2YR) = Inr c" ..
  then show ?thesis by (simp add: era_step_def Let_def)
qed

lemma era_loop_rows:
  assumes "\<forall>r \<in> set df. chd_composite r \<noteq> None \<and> WTMEC2YR r \<noteq> None" and "set es \<subseteq> set (map era df)"
  shows "\<exists>out. era_loop es df results = Inr out \<and>
     map (\<lambda>r. (res_era r, res_n_total r, res_age_std_prevalence r)) out =
       map (\<lambda>r. (res_era r, res_n_total r, res_age_std_prevalence r)) results @
       map (\<lambda>e. (e, length (era_rows df e),
                 age_std_prev_of (age_prev_loop (map fst US_STD_2000) (era_rows df e) []))) es"
  using assms(2)
proof (induction es arbitrary: results)
  case Nil
  then show ?case by simp
next
  case (Cons e es)
  then have "e \<in> set (map era df)" by simp
  from era_step_valid [OF assms(1) this] obtain row where
    row: "era_step df e = Inr row" "res_era row = e" "res_n_total row = length (era_rows df e)"
      "res_age_std_prevalence row = age_std_prev_of (age_prev_loop (map fst US_STD_2000) (era_rows df e) [])"
    by blast
  have "set es \<subseteq> set (map era df)" using Cons.prems by simp
  from Cons.IH [OF this, of "results @ [row]"] row show ?case by simp
qed

lemma set_sorted_eras: "set (sorted_eras df) = set (map era df)"
  by (simp add: sorted_eras_def)

lemma remdups_replicate_pos: "0 < k \<Longrightarrow> remdups (replicate k x) = [x]"
  by (induction k) auto

lemma participant_25_rows:
  "age_group_rows (replicate k participant_25) ag = (if ag = ''20-29'' then replicate k participant_25 else [])"
  "era_rows (replicate k participant_25) e = (if e = ''Era3_2007-2014'' then replicate k participant_25 else [])"
  "subgroup_rows (replicate k participant_25) RIAGENDR v = (if v = 1 then replicate k participant_25 else [])"
  "0 < k \<Longrightarrow> sorted_eras (replicate k participant_25) = [''Era3_2007-2014'']"
  by (auto simp: age_group_rows_def era_rows_def subgroup_rows_def sorted_eras_def participant_25_def
      create_age_groups_def remdups_replicate_pos)

lemma participant_25_dropna:
  "dropna (replicate k participant_25) chd_composite WTMEC2YR = replicate k (0, 1)"
  by (induction k) (simp_all add: dropna_def List.map_filter_simps participant_25_def)

text \<open>
  Claim C7 says that an age group with exactly 30 valid records contributes to the age
  standardisation and that a cell with exactly 50 valid records is in the output. The
  tests of the code are \<^verbatim>\<open>len(ag_df) > 30\<close> and \<^verbatim>\<open>len(sub_df) > 50\<close>: with 30 valid
  records of age 25 no age group contributes, and with 50 valid records of one sex the
  table by sex is empty.
\<close>

theorem analyzer_thresholds_counterexample:
  "length (age_group_rows (replicate 30 participant_25) ''20-29'') = 30 \<and>
   age_prev_loop (map fst US_STD_2000) (replicate 30 participant_25) [] = [] \<and>
   length (subgroup_rows (era_rows (replicate 50 participant_25) ''Era3_2007-2014'') RIAGENDR 1) = 50 \<and>
   analyze_by_subgroup (replicate 50 participant_25) RIAGENDR [(1, ''Male''), (2, ''Female'')] = Inr []"
  by (simp add: participant_25_rows US_STD_2000_def analyze_by_subgroup_def Let_def)

text \<open>
  Claim C7, as the code has it. An age group of the reference table contributes to the
  age standardisation of an era if and only if it has more than 30 rows, and a
  subgroup/era cell is in the output if and only if it has more than 50 rows, the rows
  counted being those of the data set passed in (every one of them valid once \<^verbatim>\<open>main\<close>
  has applied its exclusions). The age groups and cells below the threshold are left out,
  not filled with zeros: the mapping of age groups holds exactly the contributing groups,
  in the order of the table, and the table by subgroup holds exactly the cells above the
  threshold, era by era in sorted order, with their row counts. On a data set whose rows
  are all valid neither analysis raises.
\<close>

theorem analyzer_thresholds:
  assumes "\<forall>r \<in> set df. chd_composite r \<noteq> None \<and> WTMEC2YR r \<noteq> None"
  shows
   "age_prev_loop (map fst US_STD_2000) era_df [] =
      map (\<lambda>ag. (ag, est_prevalence
             (calculate_survey_weighted_prevalence (age_group_rows era_df ag) chd_composite WTMEC2YR)))
        (filter (\<lambda>ag. 30 < length (age_group_rows era_df ag)) (map fst US_STD_2000)) \<and>
    (ag \<in> fst ` set (age_prev_loop (map fst US_STD_2000) era_df []) \<longleftrightarrow>
       ag \<in> set (map fst US_STD_2000) \<and> 30 < length (age_group_rows era_df ag)) \<and>
    (\<exists>out. analyze_prevalence_by_era df = Inr out \<and>
       map (\<lambda>r. (res_era r, res_n_total r, res_age_std_prevalence r)) out =
         map (\<lambda>e. (e, length (era_rows df e),
                   age_std_prev_of (age_prev_loop (map fst US_STD_2000) (era_rows df e) [])))
           (sorted_eras df)) \<and>
    (\<exists>out. analyze_by_subgroup df subgroup_var subgroup_labels = Inr out \<and>
       map (\<lambda>r. (sub_era r, sub_subgroup r, sub_n_total r)) out =
         concat (map (\<lambda>e. map (\<lambda>vl. (e, snd vl, length (subgroup_rows (era_rows df e) subgroup_var (fst vl))))
           (filter (\<lambda>vl. 50 < length (subgroup_rows (era_rows df e) subgroup_var (fst vl))) subgroup_labels))
           (sorted_eras df)) \<and>
       ((\<exists>r \<in> set out. sub_era r = e \<and> sub_subgroup r = l) \<longleftrightarrow>
          e \<in> set (sorted_eras df) \<and>
          (\<exists>v. (v, l) \<in> set subgroup_labels \<and> 50 < length (subgroup_rows (era_rows df e) subgroup_var v))))"
proof -
  have d: "distinct (map fst US_STD_2000)" by (simp add: US_STD_2000_def)
  have 1: "age_prev_loop (map fst US_STD_2000) era_df [] =
      map (\<lambda>ag. (ag, est_prevalence
             (calculate_survey_weighted_prevalence (age_group_rows era_df ag) chd_composite WTMEC2YR)))
        (filter (\<lambda>ag. 30 < length (age_group_rows era_df ag)) (map fst US_STD_2000))"
    using age_prev_loop_append [OF d, of "[]" era_df] by simp
  have 2: "ag \<in> fst ` set (age_prev_loop (map fst US_STD_2000) era_df []) \<longleftrightarrow>
       ag \<in> set (map fst US_STD_2000) \<and> 30 < length (age_group_rows era_df ag)"
    unfolding 1 by force
  have 3: "\<exists>out. analyze_prevalence_by_era df = Inr out \<and>
       map (\<lambda>r. (res_era r, res_n_total r, res_age_std_prevalence r)) out =
         map (\<lambda>e. (e, length (era_rows df e),
                   age_std_prev_of (age_prev_loop (map fst US_STD_2000) (era_rows df e) [])))
           (sorted_eras df)"
    using era_loop_rows [OF assms, of "sorted_eras df" "[]"]
    by (simp add: analyze_prevalence_by_era_def set_sorted_eras)
  from subgroup_era_loop_cells [OF assms, of "sorted_eras df" subgroup_var subgroup_labels "[]"]
  obtain out where out: "analyze_by_subgroup df subgroup_var subgroup_labels = Inr out"
    "map (\<lambda>r. (sub_era r, sub_subgroup r, sub_n_total r)) out =
         concat (map (\<lambda>e. map (\<lambda>vl. (e, snd vl, length (subgroup_rows (era_rows df e) subgroup_var (fst vl))))
           (filter (\<lambda>vl. 50 < length (subgroup_rows (era_rows df e) subgroup_var (fst vl))) subgroup_labels))
           (sorted_eras df))"
    by (auto simp: analyze_by_subgroup_def)
  have "(\<exists>r \<in> set out. sub_era r = e \<and> sub_subgroup r = l) \<longleftrightarrow>
      (\<exists>k. (e, l, k) \<in> set (map (\<lambda>r. (sub_era r, sub_subgroup r, sub_n_total r)) out))"
    by force
  also have "\<dots> \<longleftrightarrow> e \<in> set (sorted_eras df) \<and>
          (\<exists>v. (v, l) \<in> set subgroup_labels \<and> 50 < length (subgroup_rows (era_rows df e) subgroup_var v))"
    unfolding out(2) by force
  finally have 4: "(\<exists>r \<in> set out. sub_era r = e \<and> sub_subgroup r = l) \<longleftrightarrow>
          e \<in> set (sorted_eras df) \<and>
          (\<exists>v. (v, l) \<in> set subgroup_labels \<and> 50 < length (subgroup_rows (era_rows df e) subgroup_var v))" .
  from 1 2 3 out 4 show ?thesis by blast
qed

theorem analyzer_thresholds_witness:
  "age_prev_loop (map fst US_STD_2000) (replicate 31 participant_25) [] = [(''20-29'', Fin 0)] \<and>
   (\<exists>out. analyze_prevalence_by_era (replicate 51 participant_25) = Inr out \<and>
      map (\<lambda>r. (res_era r, res_n_total r, res_age_std_prevalence r)) out =
        [(''Era3_2007-2014'', 51, Fin 0)]) \<and>
   (\<exists>out. analyze_by_subgroup (replicate 51 participant_25) RIAGENDR [(1, ''Male''), (2, ''Female'')] = Inr out \<and>
      map (\<lambda>r. (sub_era r, sub_subgroup r, sub_n_total r)) out = [(''Era3_2007-2014'', ''Male'', 51)])"
proof -
  have v: "\<forall>r \<in> set (replicate 51 participant_25). chd_composite r \<noteq> None \<and> WTMEC2YR r \<noteq> None"
    by (simp add: participant_25_def)
  have p: "\<And>k. 0 < k \<Longrightarrow> est_prevalence
      (calculate_survey_weighted_prevalence (replicate k participant_25) chd_composite WTMEC2YR) = Fin 0"
    by (simp add: estimate_nonempty participant_25_dropna sum_list_replicate)
  have a: "age_std_prev_of [(''20-29'', Fin 0)] = Fin 0"
    by (simp add: age_std_prev_of_def age_standardize_def US_STD_2000_def)
  show ?thesis
    using analyzer_thresholds [OF v, of "replicate 31 participant_25" "''20-29''" RIAGENDR
        "[(1, ''Male''), (2, ''Female'')]" "''Era3_2007-2014''" "''Male''"]
      analyzer_thresholds [OF v, of "replicate 51 participant_25" "''20-29''" RIAGENDR
        "[(1, ''Male''), (2, ''Female'')]" "''Era3_2007-2014''" "''Male''"]
    by (simp add: participant_25_rows US_STD_2000_def p a) (elim conjE exE, intro exI conjI, assumption+)
qed

end
